theory Spec2Isabelle
  imports Complex_Main
begin

section \<open>JavaScript values\<close>

text \<open>
  The services of the mobile app pass JSON payloads around and test them with
  JavaScript truthiness and \<^verbatim>\<open>typeof\<close>. Values are modelled by the datatype below.
  Numbers are integers: every number the modelled code inspects is a timestamp or a
  counter, and result payloads are only tested for truthiness and type.
\<close>

datatype jsval =
    JUndefined
  | JNull
  | JBool bool
  | JNum int
  | JStr string
  | JArr "jsval list"
  | JObj "(string \<times> jsval) list"


fun truthy :: "jsval \<Rightarrow> bool" where
  "truthy JUndefined = False"
| "truthy JNull = False"
| "truthy (JBool b) = b"
| "truthy (JNum n) = (n \<noteq> 0)"
| "truthy (JStr s) = (s \<noteq> [])"
| "truthy (JArr vs) = True"
| "truthy (JObj kvs) = True"


text \<open>
  Reading a named data property \<^verbatim>\<open>v.k\<close>. On \<^verbatim>\<open>null\<close> and \<^verbatim>\<open>undefined\<close>
  the read throws a TypeError (\<open>None\<close>); on an object it yields the field or
  \<^verbatim>\<open>undefined\<close>; the other values have none of the field names used here.
\<close>

fun get_prop :: "jsval \<Rightarrow> string \<Rightarrow> jsval option" where
  "get_prop JUndefined k = None"
| "get_prop JNull k = None"
| "get_prop (JObj kvs) k = Some (case map_of kvs k of None \<Rightarrow> JUndefined | Some v \<Rightarrow> v)"
| "get_prop v k = Some JUndefined"

text \<open>
  Strict equality \<^verbatim>\<open>===\<close>: primitives compare by value, objects and arrays by
  reference. The left operand below always comes out of a fresh \<^verbatim>\<open>JSON.parse\<close>, so
  an object or array is never identical to the other operand.
\<close>

fun strict_eq :: "jsval \<Rightarrow> jsval \<Rightarrow> bool" where
  "strict_eq (JArr vs) w = False"
| "strict_eq (JObj kvs) w = False"
| "strict_eq v w = (v = w)"


section \<open>Result cache (resultCache.js)\<close>



record cached_entry =
  jobId :: jsval
  result :: jsval
  transcriptionData :: jsval
  cachedAt :: jsval




definition the_prop :: "jsval \<Rightarrow> string \<Rightarrow> jsval" where
  "the_prop v k = (case get_prop v k of None \<Rightarrow> JUndefined | Some w \<Rightarrow> w)"



section \<open>Strings and errors\<close>

definition digit_char :: "nat \<Rightarrow> char" where
  "digit_char d = ''0123456789'' ! d"

text \<open>Decimal rendering of a number inside a template string.\<close>

fun show_nat :: "nat \<Rightarrow> string" where
  "show_nat n =
     (if n < 10 then [digit_char n] else show_nat (n div 10) @ [digit_char (n mod 10)])"

declare show_nat.simps [simp del]

definition starts_with :: "string \<Rightarrow> string \<Rightarrow> bool" where
  "starts_with s p = (take (length p) s = p)"

fun str_includes :: "string \<Rightarrow> string \<Rightarrow> bool" where
  "str_includes [] sub = (sub = [])"
| "str_includes (c # cs) sub = (starts_with (c # cs) sub \<or> str_includes cs sub)"

text \<open>
  A thrown value: every throw in the modelled code is an \<^verbatim>\<open>Error\<close> object, of
  which the handlers read \<^verbatim>\<open>name\<close> and \<^verbatim>\<open>message\<close>.
\<close>

datatype js_error = JsError (err_name: string) (err_message: string)

definition new_Error :: "string \<Rightarrow> js_error" where
  "new_Error m = JsError ''Error'' m"

text \<open>
  The TypeError of a property read or a method call on \<^verbatim>\<open>null\<close> or
  \<^verbatim>\<open>undefined\<close>; the wording of its message is the engine's.
\<close>

definition type_error :: js_error where
  "type_error = JsError ''TypeError'' ''Cannot read property of null or undefined''"

text \<open>The operator \<^verbatim>\<open>a || b\<close>.\<close>

definition js_or :: "jsval \<Rightarrow> jsval \<Rightarrow> jsval" where
  "js_or a b = (if truthy a then a else b)"

section \<open>Subscriber callbacks\<close>

text \<open>
  A monitor is handed \<^verbatim>\<open>onUpdate\<close>, \<^verbatim>\<open>onComplete\<close> and \<^verbatim>\<open>onError\<close>. Each may
  be missing (the code tests for it), may return, or may throw. The calls made are
  recorded in order.
\<close>

datatype callback = OnUpdate jsval | OnComplete jsval jsval | OnError jsval

datatype cb_behaviour = Absent | Returns | Raises js_error

record callbacks =
  onUpdate :: cb_behaviour
  onComplete :: cb_behaviour
  onError :: cb_behaviour

definition invoke :: "cb_behaviour \<Rightarrow> callback \<Rightarrow> callback list \<times> js_error option" where
  "invoke b c =
     (case b of
        Absent \<Rightarrow> ([], None)
      | Returns \<Rightarrow> ([c], None)
      | Raises e \<Rightarrow> ([c], Some e))"

fun is_terminal :: "callback \<Rightarrow> bool" where
  "is_terminal (OnUpdate v) = False"
| "is_terminal (OnComplete r t) = True"
| "is_terminal (OnError d) = True"

section \<open>Interval poller (audioProcessingService.js)\<close>

text \<open>
  \<^verbatim>\<open>getJobStatus(jobId)\<close>: obtains a token, fetches the status and parses the body.
  The three awaited calls are given by their outcomes; any failure is logged and
  rethrown.
\<close>

record http_response =
  status :: nat
  json_body :: "jsval option"
  text_body :: string

definition ok :: "http_response \<Rightarrow> bool" where
  "ok r = (200 \<le> status r \<and> status r \<le> 299)"

definition syntax_error :: js_error where
  "syntax_error = JsError ''SyntaxError'' ''JSON Parse error''"

definition getJobStatus :: "js_error option \<Rightarrow> js_error + http_response \<Rightarrow> js_error + jsval" where
  "getJobStatus token_failure settled =
     (case token_failure of
        Some e \<Rightarrow> Inl e
      | None \<Rightarrow>
          (case settled of
             Inl e \<Rightarrow> Inl e
           | Inr response \<Rightarrow>
               if \<not> ok response then
                 (if status response = 404 then Inl (new_Error ''Job not found'')
                  else Inl (new_Error (''HTTP error! status: '' @ show_nat (status response))))
               else (case json_body response of
                       None \<Rightarrow> Inl syntax_error
                     | Some v \<Rightarrow> Inr v)))"

text \<open>
  The poller of one job: whether its interval is registered in
  \<^verbatim>\<open>pollingIntervals\<close>, how many interval callbacks are suspended at
  \<^verbatim>\<open>await this.getJobStatus(jobId)\<close>, and the callback calls made so far.
  \<^verbatim>\<open>setInterval\<close> invokes the asynchronous callback every period whether or not an
  earlier invocation has resumed, so several can be in flight.
\<close>

record poller =
  timer :: bool
  in_flight :: nat
  calls :: "callback list"

definition stopPolling :: "poller \<Rightarrow> poller" where
  "stopPolling p = (if timer p then p\<lparr>timer := False\<rparr> else p)"

definition startPollingWithCaching :: "poller \<Rightarrow> poller" where
  "startPollingWithCaching p = (stopPolling p)\<lparr>timer := True\<rparr>"

definition fresh_poller :: poller where
  "fresh_poller = \<lparr>timer = False, in_flight = 0, calls = []\<rparr>"

text \<open>The \<^verbatim>\<open>catch\<close> block of the interval callback.\<close>

definition poll_catch :: "callbacks \<Rightarrow> js_error \<Rightarrow> poller \<Rightarrow> poller" where
  "poll_catch cbs e p =
     (let p1 = stopPolling p
      in p1\<lparr>calls := calls p1 @ fst (invoke (onError cbs) (OnError (JStr (err_message e))))\<rparr>)"

text \<open>
  The interval callback from the point where \<^verbatim>\<open>getJobStatus\<close> settles. The
  bookkeeping of \<^verbatim>\<open>removeStoredJob\<close> swallows its own failures and touches neither
  the timer nor the callbacks; it is left out.
\<close>

definition poll_resume :: "callbacks \<Rightarrow> js_error + jsval \<Rightarrow> poller \<Rightarrow> poller" where
  "poll_resume cbs reply p =
     (case reply of
        Inl e \<Rightarrow> poll_catch cbs e p
      | Inr st \<Rightarrow>
          (case get_prop st ''status'' of
             None \<Rightarrow> poll_catch cbs type_error p
           | Some s \<Rightarrow>
               if strict_eq s (JStr ''completed'') then
                 (let p1 = stopPolling p;
                      r = invoke (onComplete cbs)
                            (OnComplete (the_prop st ''result'') (the_prop st ''transcription_data''));
                      p2 = p1\<lparr>calls := calls p1 @ fst r\<rparr>
                  in case snd r of None \<Rightarrow> p2 | Some e \<Rightarrow> poll_catch cbs e p2)
               else if strict_eq s (JStr ''failed'') then
                 (let p1 = stopPolling p;
                      r = invoke (onError cbs)
                            (OnError (js_or (the_prop st ''error'') (JStr ''Processing failed'')));
                      p2 = p1\<lparr>calls := calls p1 @ fst r\<rparr>
                  in case snd r of None \<Rightarrow> p2 | Some e \<Rightarrow> poll_catch cbs e p2)
               else p))"

text \<open>
  What can happen to a poller: the interval elapses (a new callback starts and
  suspends on its status request), a pending status request settles (the callback that
  waited for it resumes), or the screen calls \<^verbatim>\<open>stopPolling\<close>.
\<close>

datatype poll_event =
    IntervalElapsed
  | StatusSettled "js_error + jsval"
  | StopRequested

fun poll_step :: "callbacks \<Rightarrow> poller \<Rightarrow> poll_event \<Rightarrow> poller" where
  "poll_step cbs p IntervalElapsed =
     (if timer p then p\<lparr>in_flight := in_flight p + 1\<rparr> else p)"
| "poll_step cbs p (StatusSettled reply) =
     (if in_flight p = 0 then p
      else poll_resume cbs reply (p\<lparr>in_flight := in_flight p - 1\<rparr>))"
| "poll_step cbs p StopRequested = stopPolling p"

definition poll_run :: "callbacks \<Rightarrow> poll_event list \<Rightarrow> poller \<Rightarrow> poller" where
  "poll_run cbs evs p = foldl (poll_step cbs) p evs"

section \<open>Authenticated requests (enhancedApiService.js)\<close>

text \<open>
  The credential lives in three places: the field \<^verbatim>\<open>this.authToken\<close> and the
  SecureStore keys \<^verbatim>\<open>authToken\<close> and \<^verbatim>\<open>auth_token\<close>. SecureStore is taken to
  be reliable. Tokens are strings; the empty string stands for any falsy token. The
  field \<open>net_log\<close> is not program state: it records, in order, what a request did.
\<close>

datatype net_event = Fetch nat | ClearToken | Delay nat

record api_state =
  authToken :: "string option"
  stored_authToken :: "string option"
  stored_auth_token :: "string option"
  net_log :: "net_event list"

definition clearAuthToken :: "api_state \<Rightarrow> api_state" where
  "clearAuthToken st =
     st\<lparr>authToken := None, stored_authToken := None, stored_auth_token := None,
        net_log := net_log st @ [ClearToken]\<rparr>"

text \<open>
  What the network does during one attempt of a request: the answer to the
  validation probe of \<^verbatim>\<open>getAuthToken\<close>, the outcomes of the first and of the
  fallback call of \<^verbatim>\<open>generateNewToken\<close>, and the outcome of the request's own
  \<^verbatim>\<open>fetch\<close>. Each is consulted only if the code gets to it.
\<close>

record attempt =
  probe :: "js_error + http_response"
  issue :: "js_error + string"
  issue_again :: "js_error + string"
  fetched :: "js_error + http_response"

definition generateNewToken :: "js_error + string \<Rightarrow> api_state \<Rightarrow> (js_error + string) \<times> api_state" where
  "generateNewToken issued st =
     (case issued of
        Inl e \<Rightarrow> (Inl e, st)
      | Inr token \<Rightarrow> (Inr token, st\<lparr>authToken := Some token, stored_auth_token := Some token\<rparr>))"

definition auth_unavailable :: js_error where
  "auth_unavailable = new_Error
     ''Failed to obtain authentication token. Please check your internet connection and try again.''"

text \<open>
  The first part of \<^verbatim>\<open>getAuthToken\<close>: a stored token is probed against the
  server. The result says whether the function returns at once, and the token it holds.
\<close>

definition probe_token :: "attempt \<Rightarrow> string \<Rightarrow> bool \<times> string" where
  "probe_token a token =
     (if token = [] then (False, token)
      else case probe a of
             Inl e \<Rightarrow> (False, [])
           | Inr testResponse \<Rightarrow>
               if ok testResponse then (True, token)
               else if status testResponse = 401 then (False, [])
               else (False, token))"

definition getAuthToken :: "attempt \<Rightarrow> api_state \<Rightarrow> (js_error + string) \<times> api_state" where
  "getAuthToken a st =
     (case probe_token a (case stored_authToken st of None \<Rightarrow> [] | Some t \<Rightarrow> t) of
        (True, token) \<Rightarrow> (Inr token, st)
      | (False, token) \<Rightarrow>
          if token \<noteq> [] then (Inr token, st)
          else
            (case generateNewToken (issue a) st of
               (Inr t, st1) \<Rightarrow>
                 (Inr t, if t \<noteq> [] then st1\<lparr>stored_authToken := Some t\<rparr> else st1)
             | (Inl e, st1) \<Rightarrow>
                 (case generateNewToken (issue_again a) st1 of
                    (Inr t, st2) \<Rightarrow>
                      if t \<noteq> [] then (Inr t, st2\<lparr>stored_authToken := Some t\<rparr>)
                      else (Inl auth_unavailable, st2)
                  | (Inl e2, st2) \<Rightarrow> (Inl auth_unavailable, st2))))"

definition baseURL :: string where
  "baseURL = ''https://your-api-domain.com''"

datatype attempt_result =
    Returned http_response
  | Thrown js_error
  | RetryUnauthorized
  | RetryServerError
  | RetryNetwork

text \<open>The \<^verbatim>\<open>catch\<close> block of \<^verbatim>\<open>makeAuthenticatedRequest\<close>; \<open>maxRetries\<close> is 3.\<close>

definition maxRetries :: nat where
  "maxRetries = 3"

definition request_catch :: "js_error \<Rightarrow> nat \<Rightarrow> api_state \<Rightarrow> attempt_result \<times> api_state" where
  "request_catch e retryCount st =
     (if err_name e = ''AbortError'' then
        (Thrown (new_Error
           ''Request timeout. Please check your internet connection and try again.''), st)
      else if err_message e = ''Network request failed'' \<or> err_name e = ''TypeError'' then
        (if retryCount < maxRetries
         then (RetryNetwork, st\<lparr>net_log := net_log st @ [Delay (2 ^ retryCount * 1000)]\<rparr>)
         else (Thrown (new_Error
           ''Network connection failed. Please check your internet connection and try again.''), st))
      else if str_includes (err_message e) ''No authentication token'' then
        (Thrown (new_Error ''Authentication failed. Please restart the app and try again.''), st)
      else (Thrown e, st))"

text \<open>One pass through the body of \<^verbatim>\<open>makeAuthenticatedRequest\<close>, up to a recursive call.\<close>

definition request_attempt :: "attempt \<Rightarrow> string \<Rightarrow> nat \<Rightarrow> api_state \<Rightarrow> attempt_result \<times> api_state" where
  "request_attempt a url retryCount st =
     (case getAuthToken a st of
        (Inl e, st1) \<Rightarrow> request_catch e retryCount st1
      | (Inr token, st1) \<Rightarrow>
          if token = [] then
            request_catch (new_Error ''No authentication token available'') retryCount st1
          else
            (let fullUrl = (if starts_with url ''http'' then url else baseURL @ url)
             in if \<not> starts_with fullUrl ''https://'' then
                  request_catch (new_Error
                    ''HTTPS is required for all API requests. Ensure your API_BASE_URL uses https://'')
                    retryCount st1
                else
                  (let st2 = st1\<lparr>net_log := net_log st1 @ [Fetch retryCount]\<rparr>
                   in case fetched a of
                        Inl e \<Rightarrow> request_catch e retryCount st2
                      | Inr response \<Rightarrow>
                          if \<not> ok response then
                            (if status response = 401 \<and> retryCount < 2 then
                               (RetryUnauthorized, clearAuthToken st2)
                             else if status response \<ge> 500 \<and> retryCount < maxRetries then
                               (RetryServerError,
                                st2\<lparr>net_log := net_log st2 @ [Delay (2 ^ retryCount * 1000)]\<rparr>)
                             else request_catch
                               (new_Error (''HTTP error! status: '' @ show_nat (status response)))
                               retryCount st2)
                          else (Returned response, st2))))"

text \<open>
  \<^verbatim>\<open>makeAuthenticatedRequest(url, options, retryCount)\<close>; \<open>env k\<close> is what the
  network does during the attempt made with \<^verbatim>\<open>retryCount = k\<close>.
\<close>

function makeAuthenticatedRequest ::
  "(nat \<Rightarrow> attempt) \<Rightarrow> string \<Rightarrow> nat \<Rightarrow> api_state \<Rightarrow> (js_error + http_response) \<times> api_state" where
  "makeAuthenticatedRequest env url retryCount st =
     (case request_attempt (env retryCount) url retryCount st of
        (Returned response, st1) \<Rightarrow> (Inr response, st1)
      | (Thrown e, st1) \<Rightarrow> (Inl e, st1)
      | (RetryUnauthorized, st1) \<Rightarrow> makeAuthenticatedRequest env url (retryCount + 1) st1
      | (RetryServerError, st1) \<Rightarrow> makeAuthenticatedRequest env url (retryCount + 1) st1
      | (RetryNetwork, st1) \<Rightarrow> makeAuthenticatedRequest env url (retryCount + 1) st1)"
  by pat_completeness auto
termination
  by (relation "measure (\<lambda>(env, url, k, st). 3 - k)")
     (auto simp: request_attempt_def request_catch_def maxRetries_def Let_def
        split: prod.splits sum.splits if_splits)

declare makeAuthenticatedRequest.simps [simp del]

section \<open>Subscription check\<close>

record subscription_status =
  has_subscription :: jsval
  tier :: string
  verification_method :: string
  verified :: bool
  error :: "string option"

text \<open>
  \<^verbatim>\<open>checkSubscriptionStatus\<close> from the point where its request has settled. A
  rejected request, a body that does not parse and a body that is \<^verbatim>\<open>null\<close> all end
  in the \<^verbatim>\<open>catch\<close> block.
\<close>

definition error_fallback :: "js_error \<Rightarrow> subscription_status" where
  "error_fallback e =
     \<lparr>has_subscription = JBool False, tier = ''free'',
      verification_method = ''error_fallback'', verified = False,
      error = Some (err_message e)\<rparr>"

definition subscription_of :: "js_error + http_response \<Rightarrow> subscription_status" where
  "subscription_of settled =
     (case settled of
        Inl e \<Rightarrow> error_fallback e
      | Inr response \<Rightarrow>
          if \<not> ok response then
            \<lparr>has_subscription = JBool False, tier = ''free'',
             verification_method = ''api_fallback'', verified = False, error = None\<rparr>
          else
            (case json_body response of
               None \<Rightarrow> error_fallback syntax_error
             | Some res \<Rightarrow>
                 (case get_prop res ''has_subscription'' of
                    None \<Rightarrow> error_fallback type_error
                  | Some hs \<Rightarrow>
                      \<lparr>has_subscription = js_or hs (JBool False),
                       tier = (if truthy hs then ''pro'' else ''free''),
                       verification_method = ''api_check'', verified = True,
                       error = None\<rparr>)))"

definition checkSubscriptionStatus ::
  "(nat \<Rightarrow> attempt) \<Rightarrow> api_state \<Rightarrow> subscription_status \<times> api_state" where
  "checkSubscriptionStatus env st =
     (case makeAuthenticatedRequest env ''/check-user-subscription'' 0 st of
        (settled, st1) \<Rightarrow> (subscription_of settled, st1))"

section \<open>Job status and submission\<close>

text \<open>
  \<^verbatim>\<open>this.directResults\<close> maps the ids synthesized by the fallback path to the
  analysis they already hold.
\<close>

type_synonym direct_results = "string \<rightharpoonup> jsval"

text \<open>
  \<^verbatim>\<open>getEnhancedJobStatus(jobId, userSubscriptionStatus)\<close>. The subscription flag only
  selects the query string of the status request; \<open>settled\<close> is the outcome of that
  request, consulted only for ids without the \<^verbatim>\<open>direct_\<close> prefix. A job id that is
  not a string has no \<^verbatim>\<open>startsWith\<close>.
\<close>

definition direct_completed :: "jsval \<Rightarrow> jsval" where
  "direct_completed directResult =
     JObj [(''status'', JStr ''completed''),
           (''result'', directResult),
           (''transcription_data'', JNull),
           (''error'', JNull),
           (''progress_message'', JStr ''Analysis complete!'')]"

definition getEnhancedJobStatus ::
  "direct_results \<Rightarrow> jsval \<Rightarrow> js_error + http_response \<Rightarrow> js_error + jsval" where
  "getEnhancedJobStatus directResults jid settled =
     (case jid of
        JStr name \<Rightarrow>
          if starts_with name ''direct_'' then
            (let directResult = (case directResults name of None \<Rightarrow> JUndefined | Some v \<Rightarrow> v)
             in if truthy directResult then Inr (direct_completed directResult)
                else
                  Inr (JObj [(''status'', JStr ''failed''),
                             (''result'', JNull),
                             (''transcription_data'', JNull),
                             (''error'', JStr ''Direct result not found''),
                             (''progress_message'', JStr ''Failed to retrieve result'')]))
          else
            (case settled of
               Inl e \<Rightarrow> Inl e
             | Inr response \<Rightarrow>
                 if \<not> ok response then
                   Inl (new_Error (''Status check failed: '' @ text_body response))
                 else
                   (case json_body response of
                      None \<Rightarrow> Inl syntax_error
                    | Some data \<Rightarrow>
                        (case get_prop data ''status'' of
                           None \<Rightarrow> Inl type_error
                         | Some s \<Rightarrow>
                             Inr (JObj
                               [(''status'', s),
                                (''result'', if strict_eq s (JStr ''completed'') then data else JNull),
                                (''transcription_data'', the_prop data ''transcription_data''),
                                (''error'', the_prop data ''error''),
                                (''progress_message'',
                                   if strict_eq s (JStr ''pending'') then JStr ''Processing in queue...''
                                   else if strict_eq s (JStr ''completed'') then JStr ''Analysis complete!''
                                   else JStr ''Processing...'')]))))
      | _ \<Rightarrow> Inl type_error)"

definition submitEnhancedLinkJob :: "js_error + http_response \<Rightarrow> js_error + jsval" where
  "submitEnhancedLinkJob settled =
     (case settled of
        Inl e \<Rightarrow> Inl e
      | Inr response \<Rightarrow>
          if \<not> ok response then
            Inl (new_Error (''Link job submission failed: '' @ text_body response))
          else (case json_body response of None \<Rightarrow> Inl syntax_error | Some v \<Rightarrow> Inr v))"

text \<open>
  What the outside world does during one \<^verbatim>\<open>submitEnhancedFileJob\<close>: the outcomes of
  the three authenticated requests, of reading the local file, and of the
  \<^verbatim>\<open>PUT\<close> to the signed URL, and the clock.
\<close>

record file_env =
  urlRequest :: "js_error + http_response"
  fileRead :: "js_error option"
  analyzeRequest :: "js_error + http_response"
  uploadFetch :: "js_error + http_response"
  reportRequest :: "js_error + http_response"
  date_now :: nat

text \<open>The fallback written out twice in the source: direct submission to \<^verbatim>\<open>/analyze\<close>.\<close>

definition direct_analyze ::
  "file_env \<Rightarrow> direct_results \<Rightarrow> (js_error + jsval) \<times> direct_results" where
  "direct_analyze env directResults =
     (case fileRead env of
        Some e \<Rightarrow> (Inl e, directResults)
      | None \<Rightarrow>
          (case analyzeRequest env of
             Inl e \<Rightarrow> (Inl e, directResults)
           | Inr analyzeResponse \<Rightarrow>
               if \<not> ok analyzeResponse then
                 (Inl (new_Error (''Analyze endpoint also failed: '' @ text_body analyzeResponse)),
                  directResults)
               else
                 (case json_body analyzeResponse of
                    None \<Rightarrow> (Inl syntax_error, directResults)
                  | Some analyzeData \<Rightarrow>
                      (let directJobId = ''direct_'' @ show_nat (date_now env)
                       in (Inr (JObj [(''job_id'', JStr directJobId)]),
                           directResults(directJobId \<mapsto> analyzeData))))))"

definition submitEnhancedFileJob ::
  "file_env \<Rightarrow> direct_results \<Rightarrow> (js_error + jsval) \<times> direct_results" where
  "submitEnhancedFileJob env directResults =
     (case urlRequest env of
        Inl e \<Rightarrow> direct_analyze env directResults
      | Inr urlResponse \<Rightarrow>
          if \<not> ok urlResponse then direct_analyze env directResults
          else
            (case json_body urlResponse of
               None \<Rightarrow> (Inl syntax_error, directResults)
             | Some urlData \<Rightarrow>
                 (case get_prop urlData ''signed_url'' of
                    None \<Rightarrow> (Inl type_error, directResults)
                  | Some signed_url \<Rightarrow>
                      (case fileRead env of
                         Some e \<Rightarrow> (Inl e, directResults)
                       | None \<Rightarrow>
                           (case uploadFetch env of
                              Inl e \<Rightarrow> (Inl e, directResults)
                            | Inr uploadResponse \<Rightarrow>
                                if \<not> ok uploadResponse then
                                  (Inl (new_Error (''File upload failed: '' @
                                          show_nat (status uploadResponse))), directResults)
                                else
                                  (case reportRequest env of
                                     Inl e \<Rightarrow> (Inl e, directResults)
                                   | Inr reportResponse \<Rightarrow>
                                       if \<not> ok reportResponse then
                                         (Inl (new_Error (''Report creation failed: '' @
                                                 text_body reportResponse)), directResults)
                                       else
                                         (case json_body reportResponse of
                                            None \<Rightarrow> (Inl syntax_error, directResults)
                                          | Some reportData \<Rightarrow>
                                              (case get_prop reportData ''task_id'' of
                                                 None \<Rightarrow> (Inl type_error, directResults)
                                               | Some task_id \<Rightarrow>
                                                   (Inr (JObj [(''job_id'', task_id)]),
                                                    directResults)))))))))"

section \<open>Timeout-chained monitor (enhancedApiService.js)\<close>

datatype effect = Call callback | SetTimeout nat

definition monitor_catch :: "callbacks \<Rightarrow> js_error \<Rightarrow> effect list" where
  "monitor_catch cbs e = map Call (fst (invoke (onError cbs) (OnError (JStr (err_message e)))))"

text \<open>
  \<^verbatim>\<open>monitorJob\<close>: each run awaits one status query; the list holds the outcomes of
  the queries of the successive runs, as far as they are observed. A run that sees a
  non-terminal status re-arms itself with \<^verbatim>\<open>setTimeout(monitorJob, 2000)\<close>.
\<close>

fun monitorJob :: "callbacks \<Rightarrow> (js_error + jsval) list \<Rightarrow> effect list" where
  "monitorJob cbs [] = []"
| "monitorJob cbs (q # qs) =
     (case q of
        Inl e \<Rightarrow> monitor_catch cbs e
      | Inr st \<Rightarrow>
          (let u = invoke (onUpdate cbs) (OnUpdate st)
           in map Call (fst u) @
              (case snd u of
                 Some e \<Rightarrow> monitor_catch cbs e
               | None \<Rightarrow>
                   (case get_prop st ''status'' of
                      None \<Rightarrow> monitor_catch cbs type_error
                    | Some s \<Rightarrow>
                        if strict_eq s (JStr ''completed'') then
                          (let c = invoke (onComplete cbs)
                                     (OnComplete (the_prop st ''result'')
                                        (the_prop st ''transcription_data''))
                           in map Call (fst c) @
                              (case snd c of None \<Rightarrow> [] | Some e \<Rightarrow> monitor_catch cbs e))
                        else if strict_eq s (JStr ''failed'') then
                          (let c = invoke (onError cbs)
                                     (OnError (js_or (the_prop st ''error'') (JStr ''Job failed'')))
                           in map Call (fst c) @
                              (case snd c of None \<Rightarrow> [] | Some e \<Rightarrow> monitor_catch cbs e))
                        else SetTimeout 2000 # monitorJob cbs qs))))"

text \<open>
  \<^verbatim>\<open>submitAndMonitor\<close>: submit by the file or the link path, then arm the first run
  of \<^verbatim>\<open>monitorJob\<close> after three seconds. \<open>polls\<close> holds, for each run of the monitor,
  the outcome its status request would have. The subscription flag, looked up first
  when the caller passes none, only selects the endpoints and is part of those outcomes.
\<close>

definition submitAndMonitor ::
  "callbacks \<Rightarrow> bool \<Rightarrow> file_env \<Rightarrow> js_error + http_response \<Rightarrow> direct_results \<Rightarrow>
   (js_error + http_response) list \<Rightarrow> (js_error + jsval) \<times> direct_results \<times> effect list" where
  "submitAndMonitor cbs isFile env linkRequest directResults polls =
     (case (if isFile then submitEnhancedFileJob env directResults
            else (submitEnhancedLinkJob linkRequest, directResults)) of
        (Inl e, dr) \<Rightarrow> (Inl e, dr, [])
      | (Inr jobResponse, dr) \<Rightarrow>
          (case get_prop jobResponse ''job_id'' of
             None \<Rightarrow> (Inl type_error, dr, [])
           | Some jid \<Rightarrow>
               (Inr jid, dr,
                SetTimeout 3000 # monitorJob cbs (map (getEnhancedJobStatus dr jid) polls))))"

section \<open>Well-formed callback traces\<close>

text \<open>
  A trace of callback calls respects the subscriber contract when a call of
  \<^verbatim>\<open>onComplete\<close> or \<^verbatim>\<open>onError\<close>, if there is one, is the last call of all.
\<close>

fun closed_trace :: "callback list \<Rightarrow> bool" where
  "closed_trace [] = True"
| "closed_trace (c # cs) = (if is_terminal c then cs = [] else closed_trace cs)"

fun calls_of :: "effect list \<Rightarrow> callback list" where
  "calls_of [] = []"
| "calls_of (Call c # es) = c # calls_of es"
| "calls_of (SetTimeout d # es) = calls_of es"

definition well_behaved :: "callbacks \<Rightarrow> bool" where
  "well_behaved cbs =
     (onUpdate cbs \<in> {Absent, Returns} \<and> onComplete cbs \<in> {Absent, Returns} \<and>
      onError cbs \<in> {Absent, Returns})"

text \<open>
  An interval poller whose ticks do not overlap: every status request settles before
  the interval elapses again.
\<close>

fun poll_ticks :: "callbacks \<Rightarrow> (js_error + jsval) list \<Rightarrow> poller \<Rightarrow> poller" where
  "poll_ticks cbs [] p = p"
| "poll_ticks cbs (r # rs) p =
     poll_ticks cbs rs (poll_step cbs (poll_step cbs p IntervalElapsed) (StatusSettled r))"

definition quiet :: "poller \<Rightarrow> bool" where
  "quiet p =
     (in_flight p = 0 \<and> closed_trace (calls p) \<and>
      (timer p \<longrightarrow> \<not> (\<exists>c \<in> set (calls p). is_terminal c)))"

section \<open>Decoding the subject of a credential\<close>

text \<open>
  \<^verbatim>\<open>String.prototype.split\<close> with a one-character separator, and
  \<^verbatim>\<open>Array.prototype.join\<close>. A string without the separator splits into itself; the
  empty string splits into one empty part.
\<close>

fun split_on :: "char \<Rightarrow> string \<Rightarrow> string list" where
  "split_on sep [] = [[]]"
| "split_on sep (c # cs) =
     (if c = sep then [] # split_on sep cs
      else (case split_on sep cs of
              [] \<Rightarrow> [[c]]
            | p # ps \<Rightarrow> (c # p) # ps))"

fun join_with :: "char \<Rightarrow> string list \<Rightarrow> string" where
  "join_with sep [] = []"
| "join_with sep [p] = p"
| "join_with sep (p # q # ps) = p @ sep # join_with sep (q # ps)"

text \<open>
  \<^verbatim>\<open>parseInt(s)\<close> without a radix: leading white space is skipped, a sign is read,
  a prefix \<^verbatim>\<open>0x\<close> selects base 16, and the longest run of digits is converted;
  without a digit the result is \<^verbatim>\<open>NaN\<close> (\<open>None\<close>). The decoded payload is a
  string of bytes, of which these seven are white space. The value is kept exact: the
  only use made of it is a comparison with the clock in seconds, an integer far below
  \<open>2\<^sup>5\<^sup>3\<close>, and rounding to a double does not change the outcome of that
  comparison.
\<close>

definition js_whitespace :: "char \<Rightarrow> bool" where
  "js_whitespace c = (of_char c \<in> {9, 10, 11, 12, 13, 32, 160 :: nat})"

definition digit_value :: "char \<Rightarrow> nat option" where
  "digit_value c =
     (let n = (of_char c :: nat)
      in if 48 \<le> n \<and> n \<le> 57 then Some (n - 48)
         else if 97 \<le> n \<and> n \<le> 122 then Some (n - 87)
         else if 65 \<le> n \<and> n \<le> 90 then Some (n - 55)
         else None)"

definition is_digit :: "nat \<Rightarrow> char \<Rightarrow> bool" where
  "is_digit radix c = (case digit_value c of None \<Rightarrow> False | Some d \<Rightarrow> d < radix)"

definition digits_value :: "nat \<Rightarrow> string \<Rightarrow> nat" where
  "digits_value radix ds =
     foldl (\<lambda>acc c. acc * radix + (case digit_value c of None \<Rightarrow> 0 | Some d \<Rightarrow> d)) 0 ds"

definition parseInt :: "string \<Rightarrow> int option" where
  "parseInt s =
     (let s1 = dropWhile js_whitespace s;
          negative = starts_with s1 ''-'';
          s2 = (if starts_with s1 ''-'' \<or> starts_with s1 ''+'' then tl s1 else s1);
          hex = (starts_with s2 ''0x'' \<or> starts_with s2 ''0X'');
          radix = (if hex then 16 else 10);
          s3 = (if hex then drop 2 s2 else s2);
          ds = takeWhile (is_digit radix) s3
      in if ds = [] then None
         else Some ((if negative then - 1 else 1) * int (digits_value radix ds)))"

text \<open>The test \<^verbatim>\<open>currentTime > parseInt(expiry)\<close>; a comparison with \<^verbatim>\<open>NaN\<close> is false.\<close>

definition expired :: "int \<Rightarrow> string \<Rightarrow> bool" where
  "expired nowMs expiry =
     (case parseInt expiry of None \<Rightarrow> False | Some n \<Rightarrow> nowMs div 1000 > n)"

text \<open>
  The two payload formats: \<^verbatim>\<open>client_id|expiry|timestamp|signature\<close>, and the older
  one with colons, split from the right. The result is the client id and the expiry
  field, or \<open>None\<close> where the code logs the format error and returns \<^verbatim>\<open>null\<close>.
\<close>

definition token_fields :: "string \<Rightarrow> (string \<times> string) option" where
  "token_fields decoded =
     (if CHR ''|'' \<in> set decoded then
        (let parts = split_on CHR ''|'' decoded
         in if length parts \<noteq> 4 then None else Some (parts ! 0, parts ! 1))
      else
        (let parts = split_on CHR '':'' decoded
         in if length parts < 4 then None
            else Some (join_with CHR '':'' (take (length parts - 3) parts),
                       parts ! (length parts - 3))))"

text \<open>
  \<^verbatim>\<open>getCurrentUserId\<close>. \<open>base64Decode\<close> is the decoder of the \<^verbatim>\<open>base-64\<close>
  package, which throws on input that is not base64 (\<open>None\<close>); \<open>nowMs\<close> is
  \<^verbatim>\<open>Date.now()\<close>. Whatever is thrown is caught and turned into \<^verbatim>\<open>null\<close>.
\<close>

definition getCurrentUserId ::
  "(string \<Rightarrow> string option) \<Rightarrow> int \<Rightarrow> attempt \<Rightarrow> api_state \<Rightarrow> string option \<times> api_state" where
  "getCurrentUserId base64Decode nowMs a st =
     (case getAuthToken a st of
        (Inl e, st1) \<Rightarrow> (None, st1)
      | (Inr token, st1) \<Rightarrow>
          if token = [] then (None, st1)
          else
            (case base64Decode token of
               None \<Rightarrow> (None, st1)
             | Some decoded \<Rightarrow>
                 (case token_fields decoded of
                    None \<Rightarrow> (None, st1)
                  | Some (clientId, expiry) \<Rightarrow>
                      if expired nowMs expiry then (None, st1) else (Some clientId, st1))))"

section \<open>Tier rules\<close>

text \<open>
  \<^verbatim>\<open>renderTranscription\<close> of the results screen (Results.js): what the screen puts
  in the transcription slot.
\<close>

datatype rendered = Nothing | ProPlaceholder | TranscriptionView jsval "jsval list"

definition renderTranscription ::
  "bool \<Rightarrow> bool \<Rightarrow> jsval \<Rightarrow> jsval list \<Rightarrow> jsval list \<Rightarrow> rendered" where
  "renderTranscription isSubscriptionLoading hasSubscription combinedTranscriptionData
       aiDetectionTimeline chartData =
     (if isSubscriptionLoading then Nothing
      else if \<not> hasSubscription then ProPlaceholder
      else if \<not> truthy combinedTranscriptionData then Nothing
      else TranscriptionView combinedTranscriptionData
             (if length aiDetectionTimeline > 0 then aiDetectionTimeline else chartData))"

text \<open>
  Modelled from the spec: the Tier Response Shaper \<open>shape(result, tier)\<close>. It runs in
  the backend behind \<^verbatim>\<open>/report-status\<close>, whose code is not among the sources; the
  mobile client only consumes its output. The data model is the one of the
  specification (\<open>AnalysisResult\<close>, \<open>DeliverableResult\<close>); the transcript is kept
  abstract. For FREE the chunk timeline and the overall label and confidence are
  included, the transcript is null and \<open>isLimited\<close> is true; for PRO the result
  passes unchanged with \<open>isLimited\<close> false.
\<close>

datatype tier_level = FREE | PRO

datatype verdict = AI | HUMAN | MIXED | UNCERTAIN

record chunk =
  index :: nat
  startOffsetSeconds :: nat
  label :: verdict
  confidence :: real

record 't analysis_result =
  job :: string
  overallLabel :: verdict
  aggregateConfidence :: real
  chunks :: "chunk list"
  transcript :: "'t option"

record 't deliverable_result = "'t analysis_result" +
  isLimited :: bool

definition shape :: "'t analysis_result \<Rightarrow> tier_level \<Rightarrow> 't deliverable_result" where
  "shape r t =
     (case t of
        FREE \<Rightarrow>
          \<lparr>job = job r, overallLabel = overallLabel r,
           aggregateConfidence = aggregateConfidence r, chunks = chunks r,
           transcript = None, isLimited = True\<rparr>
      | PRO \<Rightarrow>
          \<lparr>job = job r, overallLabel = overallLabel r,
           aggregateConfidence = aggregateConfidence r, chunks = chunks r,
           transcript = transcript r, isLimited = False\<rparr>)"

section \<open>Properties of the result cache\<close>








section \<open>Properties of the job monitors\<close>

lemma closed_trace_snoc:
  "\<not> (\<exists>c \<in> set cs. is_terminal c) \<Longrightarrow> closed_trace (cs @ [d])"
  by (induction cs) auto

lemma closed_trace_no_terminal:
  "\<not> (\<exists>c \<in> set cs. is_terminal c) \<Longrightarrow> closed_trace cs"
  by (induction cs) auto

text \<open>
  The timeout-chained monitor keeps the subscriber contract as long as the callbacks
  themselves return: a run re-arms the timer only after a non-terminal status, so a
  terminal callback is the last thing that happens.
\<close>

lemma monitorJob_closed_trace:
  "well_behaved cbs \<Longrightarrow> closed_trace (calls_of (monitorJob cbs qs))"
proof (induction qs)
  case Nil
  then show ?case by simp
next
  case (Cons q qs)
  then show ?case
    by (auto simp: monitor_catch_def well_behaved_def invoke_def Let_def
          split: sum.splits option.splits)
qed

text \<open>So does the interval poller, provided its ticks do not overlap.\<close>

lemma poll_resume_quiet:
  assumes "well_behaved cbs" "in_flight p = 0" "\<not> (\<exists>c \<in> set (calls p). is_terminal c)"
  shows "quiet (poll_resume cbs reply p)"
  using assms
  by (auto simp: quiet_def poll_resume_def poll_catch_def stopPolling_def well_behaved_def
        invoke_def Let_def closed_trace_snoc closed_trace_no_terminal
        split: sum.splits option.splits)

lemma tick_quiet:
  assumes "well_behaved cbs" "quiet p"
  shows "quiet (poll_step cbs (poll_step cbs p IntervalElapsed) (StatusSettled reply))"
proof (cases "timer p")
  case True
  with assms(2) have "in_flight (p\<lparr>in_flight := 0\<rparr>) = 0"
    and "\<not> (\<exists>c \<in> set (calls (p\<lparr>in_flight := 0\<rparr>)). is_terminal c)" and "in_flight p = 0"
    by (auto simp: quiet_def)
  then show ?thesis
    using True assms(1) poll_resume_quiet [of cbs "p\<lparr>in_flight := 0\<rparr>" reply] by simp
next
  case False
  then show ?thesis using assms(2) by (simp add: quiet_def)
qed

lemma poll_ticks_quiet:
  "well_behaved cbs \<Longrightarrow> quiet p \<Longrightarrow> quiet (poll_ticks cbs rs p)"
  by (induction rs arbitrary: p) (simp_all add: tick_quiet del: poll_step.simps)

lemma sequential_poller_closed_trace:
  assumes "well_behaved cbs"
  shows "closed_trace (calls (poll_ticks cbs rs (startPollingWithCaching fresh_poller)))"
proof -
  have "quiet (startPollingWithCaching fresh_poller)"
    by (simp add: quiet_def startPollingWithCaching_def fresh_poller_def stopPolling_def)
  from poll_ticks_quiet [OF assms this] show ?thesis by (simp add: quiet_def)
qed

text \<open>
  With a subscriber whose \<^verbatim>\<open>onComplete\<close> throws, either monitor lands in its
  \<^verbatim>\<open>catch\<close> block and calls \<^verbatim>\<open>onError\<close> as well.
\<close>

lemma throwing_onComplete_reaches_onError:
  "calls_of (monitorJob
      \<lparr>onUpdate = Absent, onComplete = Raises (new_Error ''render failed''), onError = Returns\<rparr>
      [Inr (direct_completed (JObj []))])
   = [OnComplete (JObj []) JNull, OnError (JStr ''render failed'')]"
  by (simp add: invoke_def monitor_catch_def direct_completed_def the_prop_def new_Error_def)

text \<open>
  C1. At most one of \<^verbatim>\<open>onComplete\<close> and \<^verbatim>\<open>onError\<close> is to fire, once, however
  the poll ticks interleave. The interval poller of \<^verbatim>\<open>startPollingWithCaching\<close>
  breaks this when two ticks overlap: the interval elapses a second time while the
  first status request is still pending, both requests then report
  \<^verbatim>\<open>completed\<close>, and each resumed callback calls \<^verbatim>\<open>onComplete\<close>; clearing the
  interval stops future ticks but not the one already in flight.
\<close>

theorem overlapping_ticks_fire_onComplete_twice:
  "calls (poll_run \<lparr>onUpdate = Returns, onComplete = Returns, onError = Returns\<rparr>
      [IntervalElapsed, IntervalElapsed,
       StatusSettled (Inr (JObj [(''status'', JStr ''completed''),
                                 (''result'', JObj [(''overall_prediction'', JStr ''AI'')])])),
       StatusSettled (Inr (JObj [(''status'', JStr ''completed''),
                                 (''result'', JObj [(''overall_prediction'', JStr ''AI'')])]))]
      (startPollingWithCaching fresh_poller))
   = [OnComplete (JObj [(''overall_prediction'', JStr ''AI'')]) JUndefined,
      OnComplete (JObj [(''overall_prediction'', JStr ''AI'')]) JUndefined]"
  by (simp add: poll_run_def startPollingWithCaching_def fresh_poller_def stopPolling_def
        poll_resume_def invoke_def the_prop_def Let_def)

lemma ticks_after_stop:
  "\<not> timer p \<Longrightarrow> poll_run cbs (replicate n IntervalElapsed) p = p"
  by (induction n) (simp_all add: poll_run_def)

lemma poll_run_Cons: "poll_run cbs (ev # evs) p = poll_run cbs evs (poll_step cbs p ev)"
  by (simp add: poll_run_def)

text \<open>
  C3. The claim is that one failed poll request leaves monitoring running and that only
  three failures in a row end it. Both monitors end on the first failure: after a
  status request answered with 503 the interval poller has cleared its timer and called
  \<^verbatim>\<open>onError\<close>, and later ticks do nothing; the timeout-chained monitor calls
  \<^verbatim>\<open>onError\<close> and never re-arms, although the next status would have been fine. The
  only retrying is inside \<^verbatim>\<open>makeAuthenticatedRequest\<close>, at once and with a delay,
  and on a dead network it makes four attempts before it throws.
\<close>

theorem single_poll_error_stops_monitoring:
  "poll_run \<lparr>onUpdate = Returns, onComplete = Returns, onError = Returns\<rparr>
     [IntervalElapsed,
      StatusSettled (getJobStatus None (Inr \<lparr>status = 503, json_body = None, text_body = ''''\<rparr>)),
      IntervalElapsed, IntervalElapsed]
     (startPollingWithCaching fresh_poller)
   = \<lparr>timer = False, in_flight = 0, calls = [OnError (JStr ''HTTP error! status: 503'')]\<rparr> \<and>
   monitorJob \<lparr>onUpdate = Returns, onComplete = Returns, onError = Returns\<rparr>
     [getEnhancedJobStatus Map.empty (JStr ''task-1'')
        (fst (makeAuthenticatedRequest
           (\<lambda>k. \<lparr>probe = Inr \<lparr>status = 200, json_body = None, text_body = ''''\<rparr>,
                  issue = Inr ''token'', issue_again = Inr ''token'',
                  fetched = Inl (JsError ''TypeError'' ''Network request failed'')\<rparr>)
           ''/report-status/task-1?has_subscription=false'' 0
           \<lparr>authToken = None, stored_authToken = Some ''token'', stored_auth_token = None,
            net_log = []\<rparr>)),
      Inr (JObj [(''status'', JStr ''completed'')])]
   = [Call (OnError (JStr
        ''Network connection failed. Please check your internet connection and try again.''))] \<and>
   net_log (snd (makeAuthenticatedRequest
           (\<lambda>k. \<lparr>probe = Inr \<lparr>status = 200, json_body = None, text_body = ''''\<rparr>,
                  issue = Inr ''token'', issue_again = Inr ''token'',
                  fetched = Inl (JsError ''TypeError'' ''Network request failed'')\<rparr>)
           ''/report-status/task-1?has_subscription=false'' 0
           \<lparr>authToken = None, stored_authToken = Some ''token'', stored_auth_token = None,
            net_log = []\<rparr>))
   = [Fetch 0, Delay 1000, Fetch 1, Delay 2000, Fetch 2, Delay 4000, Fetch 3]"
proof -
  let ?env = "\<lambda>k::nat. \<lparr>probe = Inr \<lparr>status = 200, json_body = None, text_body = ''''\<rparr>,
                  issue = Inr ''token'', issue_again = Inr ''token'',
                  fetched = Inl (JsError ''TypeError'' ''Network request failed'')\<rparr>"
  let ?st = "\<lparr>authToken = None, stored_authToken = Some ''token'', stored_auth_token = None,
            net_log = []\<rparr>"
  have a: "show_nat 503 = ''503''"
    by (simp add: show_nat.simps digit_char_def)
  have b: "makeAuthenticatedRequest ?env ''/report-status/task-1?has_subscription=false'' 0 ?st
        = (Inl (new_Error
             ''Network connection failed. Please check your internet connection and try again.''),
           ?st\<lparr>net_log := [Fetch 0, Delay 1000, Fetch 1, Delay 2000, Fetch 2, Delay 4000, Fetch 3]\<rparr>)"
    by (simp add: makeAuthenticatedRequest.simps request_attempt_def request_catch_def
          getAuthToken_def probe_token_def ok_def starts_with_def baseURL_def maxRetries_def Let_def)
  have c: "poll_run \<lparr>onUpdate = Returns, onComplete = Returns, onError = Returns\<rparr>
     [IntervalElapsed,
      StatusSettled (getJobStatus None (Inr \<lparr>status = 503, json_body = None, text_body = ''''\<rparr>)),
      IntervalElapsed, IntervalElapsed]
     (startPollingWithCaching fresh_poller)
   = \<lparr>timer = False, in_flight = 0, calls = [OnError (JStr ''HTTP error! status: 503'')]\<rparr>"
    by (simp add: poll_run_def startPollingWithCaching_def fresh_poller_def stopPolling_def
          poll_resume_def poll_catch_def getJobStatus_def ok_def a new_Error_def invoke_def Let_def)
  show ?thesis unfolding b
    by (simp add: c getEnhancedJobStatus_def starts_with_def monitor_catch_def invoke_def
          new_Error_def)
qed

text \<open>
  C3, amended. In both monitors the first error of a poll request ends monitoring. When
  the status request of an interval tick fails, the poller clears its timer and calls
  \<^verbatim>\<open>onError\<close> with the message of the error, and no later tick starts a request.
  When the status query of the timeout-chained monitor fails, it calls \<^verbatim>\<open>onError\<close>
  with the message and does not re-arm its timer. No count of consecutive failures is
  kept.
\<close>

theorem first_poll_error_ends_monitoring:
  assumes "timer p"
    and "getJobStatus tokenFailure outcome = Inl e"
    and "getEnhancedJobStatus dr jid settled = Inl e2"
  shows "poll_run cbs (IntervalElapsed # StatusSettled (getJobStatus tokenFailure outcome) #
            replicate n IntervalElapsed) p
         = p\<lparr>timer := False,
              calls := calls p @ fst (invoke (onError cbs) (OnError (JStr (err_message e))))\<rparr> \<and>
         monitorJob cbs (getEnhancedJobStatus dr jid settled # qs)
         = map Call (fst (invoke (onError cbs) (OnError (JStr (err_message e2)))))"
proof -
  let ?p1 = "p\<lparr>timer := False,
              calls := calls p @ fst (invoke (onError cbs) (OnError (JStr (err_message e))))\<rparr>"
  have a: "poll_step cbs (poll_step cbs p IntervalElapsed) (StatusSettled (Inl e)) = ?p1"
    using assms(1) by (simp add: poll_resume_def poll_catch_def stopPolling_def Let_def)
  have b: "poll_run cbs (replicate n IntervalElapsed) ?p1 = ?p1"
    by (rule ticks_after_stop) simp
  have "poll_run cbs (IntervalElapsed # StatusSettled (Inl e) # replicate n IntervalElapsed) p
        = poll_run cbs (replicate n IntervalElapsed)
            (poll_step cbs (poll_step cbs p IntervalElapsed) (StatusSettled (Inl e)))"
    by (simp only: poll_run_Cons)
  also have "\<dots> = ?p1" by (simp only: a b)
  finally have "poll_run cbs (IntervalElapsed # StatusSettled (Inl e) #
                  replicate n IntervalElapsed) p = ?p1" .
  then show ?thesis using assms(2,3) by (simp add: monitor_catch_def)
qed

theorem first_poll_error_ends_monitoring_witness:
  "poll_run \<lparr>onUpdate = Returns, onComplete = Returns, onError = Returns\<rparr>
     (IntervalElapsed #
      StatusSettled (getJobStatus None (Inr \<lparr>status = 404, json_body = None, text_body = ''''\<rparr>)) #
      replicate 3 IntervalElapsed)
     (startPollingWithCaching fresh_poller)
   = \<lparr>timer = False, in_flight = 0, calls = [OnError (JStr ''Job not found'')]\<rparr> \<and>
   monitorJob \<lparr>onUpdate = Returns, onComplete = Returns, onError = Returns\<rparr>
     [getEnhancedJobStatus Map.empty (JStr ''task-1'')
        (Inr \<lparr>status = 404, json_body = None, text_body = ''no such job''\<rparr>),
      Inr (JObj [(''status'', JStr ''completed'')])]
   = [Call (OnError (JStr ''Status check failed: no such job''))]"
proof -
  have h1: "timer (startPollingWithCaching fresh_poller)"
    by (simp add: startPollingWithCaching_def)
  have h2: "getJobStatus None (Inr \<lparr>status = 404, json_body = None, text_body = ''''\<rparr>)
            = Inl (new_Error ''Job not found'')"
    by (simp add: getJobStatus_def ok_def)
  have h3: "getEnhancedJobStatus Map.empty (JStr ''task-1'')
              (Inr \<lparr>status = 404, json_body = None, text_body = ''no such job''\<rparr>)
            = Inl (new_Error ''Status check failed: no such job'')"
    by (simp add: getEnhancedJobStatus_def starts_with_def ok_def)
  show ?thesis
    using first_poll_error_ends_monitoring [OF h1 h2 h3,
        of "\<lparr>onUpdate = Returns, onComplete = Returns, onError = Returns\<rparr>" 3
           "[Inr (JObj [(''status'', JStr ''completed'')])]"]
    by (simp add: invoke_def new_Error_def startPollingWithCaching_def fresh_poller_def
          stopPolling_def)
qed

section \<open>Properties of authenticated requests\<close>






lemma makeAuthenticatedRequest_returns_ok:
  "makeAuthenticatedRequest env url k st = (Inr r, st1) \<Longrightarrow> ok r"
proof (induction env url k st rule: makeAuthenticatedRequest.induct)
  case (1 env url retryCount st)
  show ?case
  proof (cases "request_attempt (env retryCount) url retryCount st")
    case (Pair res st2)
    show ?thesis
    proof (cases res)
      case (Returned x)
      with Pair 1(4) have "x = r"
        by (simp add: makeAuthenticatedRequest.simps [of env url retryCount st])
      moreover from Pair Returned have "ok x"
        by (auto simp: request_attempt_def request_catch_def Let_def
              split: prod.splits sum.splits if_splits)
      ultimately show ?thesis by simp
    next
      case (Thrown e)
      with Pair 1(4) show ?thesis
        by (simp add: makeAuthenticatedRequest.simps [of env url retryCount st])
    next
      case RetryUnauthorized
      with Pair 1(1) [OF Pair [symmetric]] 1(4) show ?thesis
        by (simp add: makeAuthenticatedRequest.simps [of env url retryCount st])
    next
      case RetryServerError
      with Pair 1(2) [OF Pair [symmetric]] 1(4) show ?thesis
        by (simp add: makeAuthenticatedRequest.simps [of env url retryCount st])
    next
      case RetryNetwork
      with Pair 1(3) [OF Pair [symmetric]] 1(4) show ?thesis
        by (simp add: makeAuthenticatedRequest.simps [of env url retryCount st])
    qed
  qed
qed

text \<open>
  C9. \<^verbatim>\<open>checkSubscriptionStatus\<close> returns a status for every outcome of its request;
  nothing it does can throw past its \<^verbatim>\<open>catch\<close>. Whenever the request is rejected
  (a non-2xx answer makes \<^verbatim>\<open>makeAuthenticatedRequest\<close> throw), whenever the body of a
  2xx answer cannot be parsed, and whenever that body is \<^verbatim>\<open>null\<close> so that reading
  \<^verbatim>\<open>has_subscription\<close> throws, the result is the error fallback: no subscription,
  the free tier, \<open>verified = False\<close>, and the message of the error. An answer
  outside 2xx that reached the function would give the same with the method
  \<^verbatim>\<open>api_fallback\<close>. Only a 2xx answer with a readable body gives a verified result, and
  it is the pro tier exactly when \<^verbatim>\<open>has_subscription\<close> is truthy. So every error
  gives the free tier and none gives pro.
\<close>

theorem checkSubscriptionStatus_fails_closed:
  "(fst (makeAuthenticatedRequest env ''/check-user-subscription'' 0 st) = Inl e \<longrightarrow>
      fst (checkSubscriptionStatus env st)
      = \<lparr>has_subscription = JBool False, tier = ''free'',
         verification_method = ''error_fallback'', verified = False,
         error = Some (err_message e)\<rparr>) \<and>
   (fst (makeAuthenticatedRequest env ''/check-user-subscription'' 0 st) = Inr r \<longrightarrow>
      ok r \<and>
      (json_body r = None \<longrightarrow>
         fst (checkSubscriptionStatus env st)
         = \<lparr>has_subscription = JBool False, tier = ''free'',
            verification_method = ''error_fallback'', verified = False,
            error = Some (err_message syntax_error)\<rparr>) \<and>
      (json_body r = Some res \<and> get_prop res ''has_subscription'' = None \<longrightarrow>
         fst (checkSubscriptionStatus env st)
         = \<lparr>has_subscription = JBool False, tier = ''free'',
            verification_method = ''error_fallback'', verified = False,
            error = Some (err_message type_error)\<rparr>) \<and>
      (json_body r = Some res \<and> get_prop res ''has_subscription'' = Some hs \<longrightarrow>
         fst (checkSubscriptionStatus env st)
         = \<lparr>has_subscription = (if truthy hs then hs else JBool False),
            tier = (if truthy hs then ''pro'' else ''free''),
            verification_method = ''api_check'', verified = True, error = None\<rparr>)) \<and>
   (\<not> ok response \<longrightarrow>
      subscription_of (Inr response)
      = \<lparr>has_subscription = JBool False, tier = ''free'',
         verification_method = ''api_fallback'', verified = False, error = None\<rparr>) \<and>
   (tier (fst (checkSubscriptionStatus env st)) = ''pro'' \<longrightarrow>
      verified (fst (checkSubscriptionStatus env st)) \<and>
      (\<exists>r res hs. fst (makeAuthenticatedRequest env ''/check-user-subscription'' 0 st) = Inr r \<and>
         ok r \<and> json_body r = Some res \<and> get_prop res ''has_subscription'' = Some hs \<and>
         truthy hs))"
proof -
  let ?out = "fst (makeAuthenticatedRequest env ''/check-user-subscription'' 0 st)"
  have run: "fst (checkSubscriptionStatus env st) = subscription_of ?out"
    by (simp add: checkSubscriptionStatus_def split_beta)
  have good: "ok x" if "?out = Inr x" for x
  proof -
    have "makeAuthenticatedRequest env ''/check-user-subscription'' 0 st
          = (Inr x, snd (makeAuthenticatedRequest env ''/check-user-subscription'' 0 st))"
      using that by (simp add: prod_eq_iff)
    then show ?thesis by (rule makeAuthenticatedRequest_returns_ok)
  qed
  have thrown: "?out = Inl e \<longrightarrow> subscription_of ?out
      = \<lparr>has_subscription = JBool False, tier = ''free'',
         verification_method = ''error_fallback'', verified = False,
         error = Some (err_message e)\<rparr>"
    by (simp add: subscription_of_def error_fallback_def)
  have answered: "?out = Inr r \<longrightarrow>
      ok r \<and>
      (json_body r = None \<longrightarrow>
         subscription_of ?out
         = \<lparr>has_subscription = JBool False, tier = ''free'',
            verification_method = ''error_fallback'', verified = False,
            error = Some (err_message syntax_error)\<rparr>) \<and>
      (json_body r = Some res \<and> get_prop res ''has_subscription'' = None \<longrightarrow>
         subscription_of ?out
         = \<lparr>has_subscription = JBool False, tier = ''free'',
            verification_method = ''error_fallback'', verified = False,
            error = Some (err_message type_error)\<rparr>) \<and>
      (json_body r = Some res \<and> get_prop res ''has_subscription'' = Some hs \<longrightarrow>
         subscription_of ?out
         = \<lparr>has_subscription = (if truthy hs then hs else JBool False),
            tier = (if truthy hs then ''pro'' else ''free''),
            verification_method = ''api_check'', verified = True, error = None\<rparr>)"
    using good [of r] by (auto simp: subscription_of_def error_fallback_def js_or_def)
  have refused: "\<not> ok response \<longrightarrow>
      subscription_of (Inr response)
      = \<lparr>has_subscription = JBool False, tier = ''free'',
         verification_method = ''api_fallback'', verified = False, error = None\<rparr>"
    by (simp add: subscription_of_def)
  have pro: "tier (subscription_of ?out) = ''pro'' \<longrightarrow>
      verified (subscription_of ?out) \<and>
      (\<exists>r res hs. ?out = Inr r \<and> ok r \<and> json_body r = Some res \<and>
         get_prop res ''has_subscription'' = Some hs \<and> truthy hs)"
    by (auto simp: subscription_of_def error_fallback_def
          split: sum.splits option.splits if_splits)
  show ?thesis
    unfolding run using thrown answered refused pro by blast
qed

theorem checkSubscriptionStatus_fails_closed_witness:
  "fst (checkSubscriptionStatus
     (\<lambda>k. \<lparr>probe = Inr \<lparr>status = 200, json_body = None, text_body = ''''\<rparr>,
            issue = Inr ''token'', issue_again = Inr ''token'',
            fetched = Inr \<lparr>status = 403, json_body = Some (JObj [(''has_subscription'', JBool True)]),
                            text_body = ''''\<rparr>\<rparr>)
     \<lparr>authToken = None, stored_authToken = Some ''token'', stored_auth_token = None,
      net_log = []\<rparr>)
   = \<lparr>has_subscription = JBool False, tier = ''free'', verification_method = ''error_fallback'',
      verified = False, error = Some ''HTTP error! status: 403''\<rparr> \<and>
   fst (checkSubscriptionStatus
     (\<lambda>k. \<lparr>probe = Inr \<lparr>status = 200, json_body = None, text_body = ''''\<rparr>,
            issue = Inr ''token'', issue_again = Inr ''token'',
            fetched = Inr \<lparr>status = 200, json_body = None, text_body = ''<html>''\<rparr>\<rparr>)
     \<lparr>authToken = None, stored_authToken = Some ''token'', stored_auth_token = None,
      net_log = []\<rparr>)
   = \<lparr>has_subscription = JBool False, tier = ''free'', verification_method = ''error_fallback'',
      verified = False, error = Some (err_message syntax_error)\<rparr> \<and>
   fst (checkSubscriptionStatus
     (\<lambda>k. \<lparr>probe = Inr \<lparr>status = 200, json_body = None, text_body = ''''\<rparr>,
            issue = Inr ''token'', issue_again = Inr ''token'',
            fetched = Inr \<lparr>status = 200, json_body = Some JNull, text_body = ''null''\<rparr>\<rparr>)
     \<lparr>authToken = None, stored_authToken = Some ''token'', stored_auth_token = None,
      net_log = []\<rparr>)
   = \<lparr>has_subscription = JBool False, tier = ''free'', verification_method = ''error_fallback'',
      verified = False, error = Some (err_message type_error)\<rparr> \<and>
   fst (checkSubscriptionStatus
     (\<lambda>k. \<lparr>probe = Inr \<lparr>status = 200, json_body = None, text_body = ''''\<rparr>,
            issue = Inr ''token'', issue_again = Inr ''token'',
            fetched = Inr \<lparr>status = 200,
                            json_body = Some (JObj [(''has_subscription'', JBool True)]),
                            text_body = ''''\<rparr>\<rparr>)
     \<lparr>authToken = None, stored_authToken = Some ''token'', stored_auth_token = None,
      net_log = []\<rparr>)
   = \<lparr>has_subscription = JBool True, tier = ''pro'', verification_method = ''api_check'',
      verified = True, error = None\<rparr>"
proof -
  let ?st = "\<lparr>authToken = None, stored_authToken = Some ''token'', stored_auth_token = None,
      net_log = []\<rparr>"
  let ?env = "\<lambda>f (k::nat). \<lparr>probe = Inr \<lparr>status = 200, json_body = None, text_body = ''''\<rparr>,
            issue = Inr ''token'', issue_again = Inr ''token'', fetched = Inr f\<rparr>"
  let ?r403 = "\<lparr>status = 403, json_body = Some (JObj [(''has_subscription'', JBool True)]),
               text_body = ''''\<rparr>"
  let ?rhtml = "\<lparr>status = 200, json_body = None, text_body = ''<html>''\<rparr>"
  let ?rnull = "\<lparr>status = 200, json_body = Some JNull, text_body = ''null''\<rparr>"
  let ?rpro = "\<lparr>status = 200, json_body = Some (JObj [(''has_subscription'', JBool True)]),
               text_body = ''''\<rparr>"
  have a: "show_nat 403 = ''403''"
    by (simp add: show_nat.simps digit_char_def)
  have b1: "fst (makeAuthenticatedRequest (?env ?r403) ''/check-user-subscription'' 0 ?st)
           = Inl (new_Error ''HTTP error! status: 403'')"
    by (simp add: makeAuthenticatedRequest.simps request_attempt_def request_catch_def
          getAuthToken_def probe_token_def ok_def starts_with_def baseURL_def maxRetries_def
          new_Error_def a Let_def)
  have b2: "fst (makeAuthenticatedRequest (?env f) ''/check-user-subscription'' 0 ?st) = Inr f"
    if "status f = 200" for f
    using that
    by (simp add: makeAuthenticatedRequest.simps request_attempt_def
          getAuthToken_def probe_token_def ok_def starts_with_def baseURL_def Let_def)
  have c1: "fst (checkSubscriptionStatus (?env ?r403) ?st)
            = \<lparr>has_subscription = JBool False, tier = ''free'',
               verification_method = ''error_fallback'', verified = False,
               error = Some ''HTTP error! status: 403''\<rparr>"
    using checkSubscriptionStatus_fails_closed
            [where env = "?env ?r403" and st = ?st and e = "new_Error ''HTTP error! status: 403''"]
          b1
    by (simp add: new_Error_def)
  have c2: "fst (checkSubscriptionStatus (?env ?rhtml) ?st)
            = \<lparr>has_subscription = JBool False, tier = ''free'',
               verification_method = ''error_fallback'', verified = False,
               error = Some (err_message syntax_error)\<rparr>"
    using checkSubscriptionStatus_fails_closed [where env = "?env ?rhtml" and st = ?st and r = ?rhtml]
          b2 [of ?rhtml]
    by simp
  have c3: "fst (checkSubscriptionStatus (?env ?rnull) ?st)
            = \<lparr>has_subscription = JBool False, tier = ''free'',
               verification_method = ''error_fallback'', verified = False,
               error = Some (err_message type_error)\<rparr>"
    using checkSubscriptionStatus_fails_closed
            [where env = "?env ?rnull" and st = ?st and r = ?rnull and res = JNull]
          b2 [of ?rnull]
    by simp
  have c4: "fst (checkSubscriptionStatus (?env ?rpro) ?st)
            = \<lparr>has_subscription = JBool True, tier = ''pro'',
               verification_method = ''api_check'', verified = True, error = None\<rparr>"
    using checkSubscriptionStatus_fails_closed
            [where env = "?env ?rpro" and st = ?st and r = ?rpro
               and res = "JObj [(''has_subscription'', JBool True)]" and hs = "JBool True"]
          b2 [of ?rpro]
    by simp
  show ?thesis using c1 c2 c3 c4 by simp
qed

section \<open>Properties of file submission and of direct results\<close>

text \<open>
  C5. The claim is that a failure of either upload step, the request for the upload
  target or the transfer of the bytes to it, leads to the fallback. Only the first
  step has one. Here the target is granted, the \<^verbatim>\<open>PUT\<close> to it is refused with 403
  as for an expired signed URL, and \<^verbatim>\<open>submitEnhancedFileJob\<close> throws although the
  direct submission would have succeeded; nothing is stored.
\<close>

theorem failed_transfer_is_thrown:
  "submitEnhancedFileJob
     \<lparr>urlRequest = Inr \<lparr>status = 200,
        json_body = Some (JObj [(''signed_url'', JStr ''https://storage.example/upload''),
                                (''file_name'', JStr ''a.mp3''), (''bucket'', JStr ''uploads'')]),
        text_body = ''''\<rparr>,
      fileRead = None,
      analyzeRequest = Inr \<lparr>status = 200,
        json_body = Some (JObj [(''overall_prediction'', JStr ''AI'')]), text_body = ''''\<rparr>,
      uploadFetch = Inr \<lparr>status = 403, json_body = None, text_body = ''expired''\<rparr>,
      reportRequest = Inr \<lparr>status = 200,
        json_body = Some (JObj [(''task_id'', JStr ''task-1'')]), text_body = ''''\<rparr>,
      date_now = 1730000000123\<rparr>
     Map.empty
   = (Inl (new_Error ''File upload failed: 403''), Map.empty)"
proof -
  have "show_nat 403 = ''403''"
    by (simp add: show_nat.simps digit_char_def)
  then show ?thesis
    by (simp add: submitEnhancedFileJob_def ok_def)
qed

text \<open>
  C5, amended. Every failure of the request for the upload target, whether the request
  is rejected or answered outside 2xx, makes \<^verbatim>\<open>submitEnhancedFileJob\<close> fall back to
  direct submission; when the file can be read and \<^verbatim>\<open>/analyze\<close> answers 2xx with a
  body, the fallback returns the id \<^verbatim>\<open>direct_\<close> followed by the clock and stores the
  analysis under it. A failure of the transfer to a granted target, rejected or
  answered outside 2xx, is thrown to the caller, with no fallback and nothing stored.
\<close>

theorem fallback_on_target_request_only:
  "((case urlRequest env of Inl e \<Rightarrow> True | Inr u \<Rightarrow> \<not> ok u) \<longrightarrow>
      submitEnhancedFileJob env dr = direct_analyze env dr) \<and>
   (fileRead env = None \<and> analyzeRequest env = Inr a \<and> ok a \<and> json_body a = Some analyzeData \<longrightarrow>
      direct_analyze env dr
      = (Inr (JObj [(''job_id'', JStr (''direct_'' @ show_nat (date_now env)))]),
         dr(''direct_'' @ show_nat (date_now env) \<mapsto> analyzeData))) \<and>
   (urlRequest env = Inr u \<and> ok u \<and> json_body u = Some urlData \<and>
    get_prop urlData ''signed_url'' = Some signed_url \<and> fileRead env = None \<longrightarrow>
      (uploadFetch env = Inl e \<longrightarrow> submitEnhancedFileJob env dr = (Inl e, dr)) \<and>
      (uploadFetch env = Inr up \<and> \<not> ok up \<longrightarrow>
         submitEnhancedFileJob env dr
         = (Inl (new_Error (''File upload failed: '' @ show_nat (status up))), dr)))"
proof -
  have a: "submitEnhancedFileJob env dr = direct_analyze env dr"
    if "case urlRequest env of Inl e \<Rightarrow> True | Inr u \<Rightarrow> \<not> ok u"
    using that by (simp add: submitEnhancedFileJob_def split: sum.splits)
  have b: "direct_analyze env dr
      = (Inr (JObj [(''job_id'', JStr (''direct_'' @ show_nat (date_now env)))]),
         dr(''direct_'' @ show_nat (date_now env) \<mapsto> analyzeData))"
    if "fileRead env = None" "analyzeRequest env = Inr a" "ok a" "json_body a = Some analyzeData"
    using that by (simp add: direct_analyze_def Let_def)
  have c: "submitEnhancedFileJob env dr = (Inl e, dr)"
    if "urlRequest env = Inr u" "ok u" "json_body u = Some urlData"
       "get_prop urlData ''signed_url'' = Some signed_url" "fileRead env = None"
       "uploadFetch env = Inl e"
    using that by (simp add: submitEnhancedFileJob_def)
  have d: "submitEnhancedFileJob env dr
         = (Inl (new_Error (''File upload failed: '' @ show_nat (status up))), dr)"
    if "urlRequest env = Inr u" "ok u" "json_body u = Some urlData"
       "get_prop urlData ''signed_url'' = Some signed_url" "fileRead env = None"
       "uploadFetch env = Inr up" "\<not> ok up"
    using that by (simp add: submitEnhancedFileJob_def)
  show ?thesis using a b c d by blast
qed

theorem fallback_on_target_request_only_witness:
  "submitEnhancedFileJob
     \<lparr>urlRequest = Inl (new_Error ''HTTP error! status: 503''),
      fileRead = None,
      analyzeRequest = Inr \<lparr>status = 200,
        json_body = Some (JObj [(''overall_prediction'', JStr ''AI'')]), text_body = ''''\<rparr>,
      uploadFetch = Inr \<lparr>status = 200, json_body = None, text_body = ''''\<rparr>,
      reportRequest = Inr \<lparr>status = 200,
        json_body = Some (JObj [(''task_id'', JStr ''task-1'')]), text_body = ''''\<rparr>,
      date_now = 1730000000123\<rparr>
     Map.empty
   = (Inr (JObj [(''job_id'', JStr ''direct_1730000000123'')]),
      [''direct_1730000000123'' \<mapsto> JObj [(''overall_prediction'', JStr ''AI'')]]) \<and>
   submitEnhancedFileJob
     \<lparr>urlRequest = Inr \<lparr>status = 200,
        json_body = Some (JObj [(''signed_url'', JStr ''https://storage.example/upload'')]),
        text_body = ''''\<rparr>,
      fileRead = None,
      analyzeRequest = Inr \<lparr>status = 200,
        json_body = Some (JObj [(''overall_prediction'', JStr ''AI'')]), text_body = ''''\<rparr>,
      uploadFetch = Inl (JsError ''TypeError'' ''Network request failed''),
      reportRequest = Inr \<lparr>status = 200,
        json_body = Some (JObj [(''task_id'', JStr ''task-1'')]), text_body = ''''\<rparr>,
      date_now = 1730000000123\<rparr>
     Map.empty
   = (Inl (JsError ''TypeError'' ''Network request failed''), Map.empty)"
proof -
  let ?a = "\<lparr>status = 200,
        json_body = Some (JObj [(''overall_prediction'', JStr ''AI'')]), text_body = ''''\<rparr>"
  let ?u = "\<lparr>status = 200,
        json_body = Some (JObj [(''signed_url'', JStr ''https://storage.example/upload'')]),
        text_body = ''''\<rparr>"
  let ?env1 = "\<lparr>urlRequest = Inl (new_Error ''HTTP error! status: 503''),
      fileRead = None, analyzeRequest = Inr ?a,
      uploadFetch = Inr \<lparr>status = 200, json_body = None, text_body = ''''\<rparr>,
      reportRequest = Inr \<lparr>status = 200,
        json_body = Some (JObj [(''task_id'', JStr ''task-1'')]), text_body = ''''\<rparr>,
      date_now = 1730000000123\<rparr>"
  let ?env2 = "\<lparr>urlRequest = Inr ?u,
      fileRead = None, analyzeRequest = Inr ?a,
      uploadFetch = Inl (JsError ''TypeError'' ''Network request failed''),
      reportRequest = Inr \<lparr>status = 200,
        json_body = Some (JObj [(''task_id'', JStr ''task-1'')]), text_body = ''''\<rparr>,
      date_now = 1730000000123\<rparr>"
  have n: "show_nat 1730000000123 = ''1730000000123''"
    by (simp add: show_nat.simps digit_char_def)
  show ?thesis
    using fallback_on_target_request_only
            [of ?env1 Map.empty ?a "JObj [(''overall_prediction'', JStr ''AI'')]"]
          fallback_on_target_request_only
            [of ?env2 Map.empty _ _ ?u
                "JObj [(''signed_url'', JStr ''https://storage.example/upload'')]"
                "JStr ''https://storage.example/upload''"
                "JsError ''TypeError'' ''Network request failed''"]
    by (simp add: ok_def n)
qed

lemma direct_analyze_returns:
  "direct_analyze env dr0 = (Inr response, dr1) \<Longrightarrow>
     \<exists>data. response = JObj [(''job_id'', JStr (''direct_'' @ show_nat (date_now env)))] \<and>
            dr1 = dr0(''direct_'' @ show_nat (date_now env) \<mapsto> data)"
  by (auto simp: direct_analyze_def Let_def split: sum.splits option.splits if_splits)

lemma upload_path_returns:
  assumes "urlRequest env = Inr u" and "ok u"
    and "submitEnhancedFileJob env dr0 = (Inr response, dr1)"
  shows "\<exists>v reportData task_id. reportRequest env = Inr v \<and> json_body v = Some reportData \<and>
            get_prop reportData ''task_id'' = Some task_id \<and>
            response = JObj [(''job_id'', task_id)] \<and> dr1 = dr0"
  using assms
  by (simp add: submitEnhancedFileJob_def split: sum.splits option.splits if_splits)

lemma submitEnhancedFileJob_returns:
  assumes "submitEnhancedFileJob env dr0 = (Inr response, dr1)"
  shows "(\<exists>data. response = JObj [(''job_id'', JStr (''direct_'' @ show_nat (date_now env)))] \<and>
                 dr1 = dr0(''direct_'' @ show_nat (date_now env) \<mapsto> data)) \<or>
         (\<exists>v reportData task_id. reportRequest env = Inr v \<and> json_body v = Some reportData \<and>
                 get_prop reportData ''task_id'' = Some task_id \<and>
                 response = JObj [(''job_id'', task_id)] \<and> dr1 = dr0)"
proof (cases "urlRequest env")
  case (Inl e)
  then have "direct_analyze env dr0 = (Inr response, dr1)"
    using assms by (simp add: submitEnhancedFileJob_def)
  then show ?thesis by (blast dest: direct_analyze_returns)
next
  case (Inr u)
  show ?thesis
  proof (cases "ok u")
    case True
    from upload_path_returns [OF Inr True assms] show ?thesis by blast
  next
    case False
    then have "direct_analyze env dr0 = (Inr response, dr1)"
      using assms Inr by (simp add: submitEnhancedFileJob_def)
    then show ?thesis by (blast dest: direct_analyze_returns)
  qed
qed

lemma direct_status:
  "starts_with name ''direct_'' \<Longrightarrow> dr name = Some r \<Longrightarrow> truthy r \<Longrightarrow>
   getEnhancedJobStatus dr (JStr name) settled = Inr (direct_completed r)"
  by (simp add: getEnhancedJobStatus_def Let_def)

lemma monitorJob_completed_at_once:
  "well_behaved cbs \<Longrightarrow>
   monitorJob cbs (Inr (direct_completed r) # qs)
   = map Call (fst (invoke (onUpdate cbs) (OnUpdate (direct_completed r))) @
               fst (invoke (onComplete cbs) (OnComplete r JNull)))"
  by (auto simp: well_behaved_def invoke_def direct_completed_def the_prop_def Let_def)

text \<open>
  C4. The claim is that every call to submit returns a pollable or a pre-completed id,
  and that a pre-completed id is reported as completed without any poll timer being
  started. Neither holds as stated. In scenario A (the request for the upload target
  fails, the direct submission succeeds) \<^verbatim>\<open>submitAndMonitor\<close> first arms
  \<^verbatim>\<open>setTimeout(monitorJob, 3000)\<close>, and completion is reported only by the run that
  this timer starts. And the id is taken from the server's answer unchecked: for a link
  whose submission is answered 2xx with a body that has no \<^verbatim>\<open>job_id\<close>, the id
  returned is \<^verbatim>\<open>undefined\<close>, and the first status query fails on it.
\<close>

theorem direct_job_waits_for_initial_timer:
  "submitAndMonitor \<lparr>onUpdate = Returns, onComplete = Returns, onError = Returns\<rparr> True
     \<lparr>urlRequest = Inl (new_Error ''HTTP error! status: 503''),
      fileRead = None,
      analyzeRequest = Inr \<lparr>status = 200,
        json_body = Some (JObj [(''overall_prediction'', JStr ''AI'')]), text_body = ''''\<rparr>,
      uploadFetch = Inr \<lparr>status = 200, json_body = None, text_body = ''''\<rparr>,
      reportRequest = Inr \<lparr>status = 200,
        json_body = Some (JObj [(''task_id'', JStr ''task-1'')]), text_body = ''''\<rparr>,
      date_now = 1730000000123\<rparr>
     (Inl (new_Error ''unused'')) Map.empty
     [Inl (new_Error ''Network connection failed'')]
   = (Inr (JStr ''direct_1730000000123''),
      [''direct_1730000000123'' \<mapsto> JObj [(''overall_prediction'', JStr ''AI'')]],
      [SetTimeout 3000,
       Call (OnUpdate (direct_completed (JObj [(''overall_prediction'', JStr ''AI'')]))),
       Call (OnComplete (JObj [(''overall_prediction'', JStr ''AI'')]) JNull)]) \<and>
   submitAndMonitor \<lparr>onUpdate = Returns, onComplete = Returns, onError = Returns\<rparr> False
     \<lparr>urlRequest = Inl (new_Error ''unused''), fileRead = None,
      analyzeRequest = Inl (new_Error ''unused''), uploadFetch = Inl (new_Error ''unused''),
      reportRequest = Inl (new_Error ''unused''), date_now = 1730000000123\<rparr>
     (Inr \<lparr>status = 200, json_body = Some (JObj [(''status'', JStr ''queued'')]),
           text_body = ''''\<rparr>)
     Map.empty
     [Inr \<lparr>status = 200, json_body = Some (JObj [(''status'', JStr ''pending'')]),
           text_body = ''''\<rparr>]
   = (Inr JUndefined, Map.empty,
      [SetTimeout 3000, Call (OnError (JStr (err_message type_error)))])"
proof -
  have n: "show_nat 1730000000123 = ''1730000000123''"
    by (simp add: show_nat.simps digit_char_def)
  show ?thesis
    by (simp add: submitAndMonitor_def submitEnhancedFileJob_def direct_analyze_def
          submitEnhancedLinkJob_def getEnhancedJobStatus_def direct_completed_def
          monitor_catch_def invoke_def the_prop_def starts_with_def ok_def n Let_def)
qed

lemma upload_path_succeeds:
  assumes "urlRequest env = Inr u" "ok u" "json_body u = Some urlData"
    and "get_prop urlData ''signed_url'' = Some signed_url" "fileRead env = None"
    and "uploadFetch env = Inr up" "ok up"
    and "reportRequest env = Inr rp" "ok rp" "json_body rp = Some reportData"
    and "get_prop reportData ''task_id'' = Some task_id"
  shows "submitEnhancedFileJob env dr0 = (Inr (JObj [(''job_id'', task_id)]), dr0)"
  using assms by (simp add: submitEnhancedFileJob_def)

lemma link_path_succeeds:
  assumes "ok u" "json_body u = Some answer"
  shows "submitEnhancedLinkJob (Inr u) = Inr answer"
  using assms by (simp add: submitEnhancedLinkJob_def)

lemma link_path_returns:
  "submitEnhancedLinkJob linkRequest = Inr answer \<Longrightarrow>
   \<exists>u. linkRequest = Inr u \<and> ok u \<and> json_body u = Some answer"
  by (auto simp: submitEnhancedLinkJob_def split: sum.splits option.splits if_splits)

text \<open>
  C4, amended. A call to submit may throw. When the file path returns, it returns the
  task id of the server's answer to \<^verbatim>\<open>/report\<close> or the synthesized id
  \<^verbatim>\<open>direct_\<close> followed by the clock, with the analysis stored under it; it does
  return the former whenever target, transfer and report all succeed, and the latter
  whenever the request for the target fails and the direct submission succeeds. The
  link path returns the body of a 2xx answer, and \<^verbatim>\<open>submitAndMonitor\<close> hands back
  its \<^verbatim>\<open>job_id\<close> field without checking it. For an id with the prefix
  \<^verbatim>\<open>direct_\<close> whose stored result is truthy, the status query answers
  \<^verbatim>\<open>completed\<close> with that result whatever the network would say, and, with callbacks
  that return, the first run of \<^verbatim>\<open>monitorJob\<close> calls \<^verbatim>\<open>onUpdate\<close> and
  \<^verbatim>\<open>onComplete\<close> and ends without arming the two-second poll timer. In scenario A
  \<^verbatim>\<open>submitAndMonitor\<close> arms exactly one timer, the three-second delay before that
  first run.
\<close>

theorem direct_job_completes_on_first_status_query:
  assumes "starts_with name ''direct_''" and "dr name = Some r" and "truthy r"
    and "well_behaved cbs"
  shows "getEnhancedJobStatus dr (JStr name) settled = Inr (direct_completed r) \<and>
         monitorJob cbs (map (getEnhancedJobStatus dr (JStr name)) (settled # later))
         = map Call (fst (invoke (onUpdate cbs) (OnUpdate (direct_completed r))) @
                     fst (invoke (onComplete cbs) (OnComplete r JNull))) \<and>
         (submitEnhancedFileJob env dr0 = (Inr response, dr1) \<longrightarrow>
            (\<exists>data. response = JObj [(''job_id'', JStr (''direct_'' @ show_nat (date_now env)))] \<and>
                    dr1 = dr0(''direct_'' @ show_nat (date_now env) \<mapsto> data)) \<or>
            (\<exists>v reportData task_id. reportRequest env = Inr v \<and> json_body v = Some reportData \<and>
                    get_prop reportData ''task_id'' = Some task_id \<and>
                    response = JObj [(''job_id'', task_id)] \<and> dr1 = dr0)) \<and>
         (urlRequest env = Inr u \<and> ok u \<and> json_body u = Some urlData \<and>
          get_prop urlData ''signed_url'' = Some signed_url \<and> fileRead env = None \<and>
          uploadFetch env = Inr up \<and> ok up \<and>
          reportRequest env = Inr rp \<and> ok rp \<and> json_body rp = Some reportData \<and>
          get_prop reportData ''task_id'' = Some task_id \<longrightarrow>
            submitEnhancedFileJob env dr0 = (Inr (JObj [(''job_id'', task_id)]), dr0) \<and>
            fst (submitAndMonitor cbs True env linkRequest dr0 polls) = Inr task_id) \<and>
         (submitEnhancedLinkJob linkRequest = Inr answer \<longrightarrow>
            (\<exists>u. linkRequest = Inr u \<and> ok u \<and> json_body u = Some answer)) \<and>
         (ok lr \<and> json_body lr = Some answer \<longrightarrow>
            submitEnhancedLinkJob (Inr lr) = Inr answer \<and>
            (get_prop answer ''job_id'' = Some jid \<longrightarrow>
               fst (submitAndMonitor cbs False env (Inr lr) dr0 polls) = Inr jid)) \<and>
         ((case urlRequest env of Inl e \<Rightarrow> True | Inr u \<Rightarrow> \<not> ok u) \<and> fileRead env = None \<and>
          analyzeRequest env = Inr a \<and> ok a \<and> json_body a = Some r \<longrightarrow>
            submitEnhancedFileJob env dr0
            = (Inr (JObj [(''job_id'', JStr (''direct_'' @ show_nat (date_now env)))]),
               dr0(''direct_'' @ show_nat (date_now env) \<mapsto> r)) \<and>
            submitAndMonitor cbs True env linkRequest dr0 (settled # later)
            = (Inr (JStr (''direct_'' @ show_nat (date_now env))),
               dr0(''direct_'' @ show_nat (date_now env) \<mapsto> r),
               SetTimeout 3000 #
               map Call (fst (invoke (onUpdate cbs) (OnUpdate (direct_completed r))) @
                         fst (invoke (onComplete cbs) (OnComplete r JNull)))))"
proof -
  define ident where "ident = ''direct_'' @ show_nat (date_now env)"
  have status: "getEnhancedJobStatus dr (JStr name) settled = Inr (direct_completed r)"
    using assms(1-3) by (rule direct_status)
  have run: "monitorJob cbs (Inr (direct_completed r) # qs)
             = map Call (fst (invoke (onUpdate cbs) (OnUpdate (direct_completed r))) @
                         fst (invoke (onComplete cbs) (OnComplete r JNull)))" for qs
    using assms(4) by (rule monitorJob_completed_at_once)
  have first: "monitorJob cbs (map (getEnhancedJobStatus dr (JStr name)) (settled # later))
         = map Call (fst (invoke (onUpdate cbs) (OnUpdate (direct_completed r))) @
                     fst (invoke (onComplete cbs) (OnComplete r JNull)))"
    unfolding list.map status by (rule run)
  have returns: "submitEnhancedFileJob env dr0 = (Inr response, dr1) \<longrightarrow>
            (\<exists>data. response = JObj [(''job_id'', JStr ident)] \<and> dr1 = dr0(ident \<mapsto> data)) \<or>
            (\<exists>v reportData task_id. reportRequest env = Inr v \<and> json_body v = Some reportData \<and>
                    get_prop reportData ''task_id'' = Some task_id \<and>
                    response = JObj [(''job_id'', task_id)] \<and> dr1 = dr0)"
    unfolding ident_def using submitEnhancedFileJob_returns [of env dr0 response dr1] by blast
  have upload: "submitEnhancedFileJob env dr0 = (Inr (JObj [(''job_id'', task_id)]), dr0) \<and>
            fst (submitAndMonitor cbs True env linkRequest dr0 polls) = Inr task_id"
    if "urlRequest env = Inr u \<and> ok u \<and> json_body u = Some urlData \<and>
          get_prop urlData ''signed_url'' = Some signed_url \<and> fileRead env = None \<and>
          uploadFetch env = Inr up \<and> ok up \<and>
          reportRequest env = Inr rp \<and> ok rp \<and> json_body rp = Some reportData \<and>
          get_prop reportData ''task_id'' = Some task_id"
  proof -
    have s: "submitEnhancedFileJob env dr0 = (Inr (JObj [(''job_id'', task_id)]), dr0)"
      using that by (intro upload_path_succeeds [of env u urlData signed_url up rp reportData]) auto
    then show ?thesis by (simp add: submitAndMonitor_def del: monitorJob.simps)
  qed
  have link: "submitEnhancedLinkJob linkRequest = Inr answer \<longrightarrow>
            (\<exists>u. linkRequest = Inr u \<and> ok u \<and> json_body u = Some answer)"
    using link_path_returns [of linkRequest answer] by blast
  have link_ok: "submitEnhancedLinkJob (Inr lr) = Inr answer \<and>
            (get_prop answer ''job_id'' = Some jid \<longrightarrow>
               fst (submitAndMonitor cbs False env (Inr lr) dr0 polls) = Inr jid)"
    if "ok lr \<and> json_body lr = Some answer"
  proof -
    have s: "submitEnhancedLinkJob (Inr lr) = Inr answer"
      using that by (intro link_path_succeeds) auto
    then show ?thesis by (simp add: submitAndMonitor_def del: monitorJob.simps)
  qed
  have scenario: "submitEnhancedFileJob env dr0
            = (Inr (JObj [(''job_id'', JStr ident)]), dr0(ident \<mapsto> r)) \<and>
            submitAndMonitor cbs True env linkRequest dr0 (settled # later)
            = (Inr (JStr ident), dr0(ident \<mapsto> r),
               SetTimeout 3000 #
               map Call (fst (invoke (onUpdate cbs) (OnUpdate (direct_completed r))) @
                         fst (invoke (onComplete cbs) (OnComplete r JNull))))"
    if h: "(case urlRequest env of Inl e \<Rightarrow> True | Inr u \<Rightarrow> \<not> ok u) \<and> fileRead env = None \<and>
          analyzeRequest env = Inr a \<and> ok a \<and> json_body a = Some r"
  proof -
    have s1: "submitEnhancedFileJob env dr0 = direct_analyze env dr0"
      using h by (simp add: submitEnhancedFileJob_def split: sum.splits)
    have s2: "direct_analyze env dr0 = (Inr (JObj [(''job_id'', JStr ident)]), dr0(ident \<mapsto> r))"
      using h unfolding ident_def by (simp add: direct_analyze_def Let_def)
    have p: "starts_with ident ''direct_''"
      unfolding ident_def by (simp add: starts_with_def)
    have q: "getEnhancedJobStatus (dr0(ident \<mapsto> r)) (JStr ident) settled = Inr (direct_completed r)"
      using p _ assms(3) by (rule direct_status) simp
    have m: "monitorJob cbs (map (getEnhancedJobStatus (dr0(ident \<mapsto> r)) (JStr ident)) (settled # later))
             = map Call (fst (invoke (onUpdate cbs) (OnUpdate (direct_completed r))) @
                         fst (invoke (onComplete cbs) (OnComplete r JNull)))"
      unfolding list.map q by (rule run)
    have "submitAndMonitor cbs True env linkRequest dr0 (settled # later)
            = (Inr (JStr ident), dr0(ident \<mapsto> r),
               SetTimeout 3000 #
               map Call (fst (invoke (onUpdate cbs) (OnUpdate (direct_completed r))) @
                         fst (invoke (onComplete cbs) (OnComplete r JNull))))"
      unfolding submitAndMonitor_def s1 s2 using m by simp
    then show ?thesis unfolding s1 s2 by simp
  qed
  show ?thesis
    unfolding ident_def [symmetric]
    using status first returns upload link link_ok scenario
    by blast
qed

theorem direct_job_completes_on_first_status_query_witness:
  "getEnhancedJobStatus
     [''direct_1730000000123'' \<mapsto> JObj [(''overall_prediction'', JStr ''AI'')]]
     (JStr ''direct_1730000000123'') (Inl (new_Error ''Network connection failed''))
   = Inr (direct_completed (JObj [(''overall_prediction'', JStr ''AI'')])) \<and>
   submitAndMonitor \<lparr>onUpdate = Returns, onComplete = Returns, onError = Returns\<rparr> True
     \<lparr>urlRequest = Inl (new_Error ''HTTP error! status: 503''),
      fileRead = None,
      analyzeRequest = Inr \<lparr>status = 200,
        json_body = Some (JObj [(''overall_prediction'', JStr ''AI'')]), text_body = ''''\<rparr>,
      uploadFetch = Inr \<lparr>status = 200, json_body = None, text_body = ''''\<rparr>,
      reportRequest = Inr \<lparr>status = 200,
        json_body = Some (JObj [(''task_id'', JStr ''task-1'')]), text_body = ''''\<rparr>,
      date_now = 1730000000123\<rparr>
     (Inl (new_Error ''unused'')) Map.empty
     [Inl (new_Error ''Network connection failed''), Inl (new_Error ''Network connection failed'')]
   = (Inr (JStr ''direct_1730000000123''),
      [''direct_1730000000123'' \<mapsto> JObj [(''overall_prediction'', JStr ''AI'')]],
      [SetTimeout 3000,
       Call (OnUpdate (direct_completed (JObj [(''overall_prediction'', JStr ''AI'')]))),
       Call (OnComplete (JObj [(''overall_prediction'', JStr ''AI'')]) JNull)]) \<and>
   submitEnhancedFileJob
     \<lparr>urlRequest = Inr \<lparr>status = 200,
        json_body = Some (JObj [(''signed_url'', JStr ''https://storage.example/upload'')]),
        text_body = ''''\<rparr>,
      fileRead = None,
      analyzeRequest = Inr \<lparr>status = 200,
        json_body = Some (JObj [(''overall_prediction'', JStr ''AI'')]), text_body = ''''\<rparr>,
      uploadFetch = Inr \<lparr>status = 200, json_body = None, text_body = ''''\<rparr>,
      reportRequest = Inr \<lparr>status = 200,
        json_body = Some (JObj [(''task_id'', JStr ''task-1'')]), text_body = ''''\<rparr>,
      date_now = 1730000000123\<rparr>
     Map.empty
   = (Inr (JObj [(''job_id'', JStr ''task-1'')]), Map.empty) \<and>
   fst (submitAndMonitor \<lparr>onUpdate = Returns, onComplete = Returns, onError = Returns\<rparr> False
     \<lparr>urlRequest = Inl (new_Error ''HTTP error! status: 503''),
      fileRead = None,
      analyzeRequest = Inr \<lparr>status = 200,
        json_body = Some (JObj [(''overall_prediction'', JStr ''AI'')]), text_body = ''''\<rparr>,
      uploadFetch = Inr \<lparr>status = 200, json_body = None, text_body = ''''\<rparr>,
      reportRequest = Inr \<lparr>status = 200,
        json_body = Some (JObj [(''task_id'', JStr ''task-1'')]), text_body = ''''\<rparr>,
      date_now = 1730000000123\<rparr>
     (Inr \<lparr>status = 200, json_body = Some (JObj [(''job_id'', JStr ''job-7'')]),
           text_body = ''''\<rparr>)
     Map.empty [])
   = Inr (JStr ''job-7'')"
proof -
  let ?data = "JObj [(''overall_prediction'', JStr ''AI'')]"
  let ?a = "\<lparr>status = 200, json_body = Some ?data, text_body = ''''\<rparr>"
  let ?up = "\<lparr>status = 200, json_body = None, text_body = ''''\<rparr>"
  let ?rp = "\<lparr>status = 200, json_body = Some (JObj [(''task_id'', JStr ''task-1'')]),
             text_body = ''''\<rparr>"
  let ?u = "\<lparr>status = 200,
        json_body = Some (JObj [(''signed_url'', JStr ''https://storage.example/upload'')]),
        text_body = ''''\<rparr>"
  let ?lr = "\<lparr>status = 200, json_body = Some (JObj [(''job_id'', JStr ''job-7'')]),
             text_body = ''''\<rparr>"
  let ?envA = "\<lparr>urlRequest = Inl (new_Error ''HTTP error! status: 503''),
      fileRead = None, analyzeRequest = Inr ?a, uploadFetch = Inr ?up,
      reportRequest = Inr ?rp, date_now = 1730000000123\<rparr>"
  let ?envU = "\<lparr>urlRequest = Inr ?u,
      fileRead = None, analyzeRequest = Inr ?a, uploadFetch = Inr ?up,
      reportRequest = Inr ?rp, date_now = 1730000000123\<rparr>"
  let ?cbs = "\<lparr>onUpdate = Returns, onComplete = Returns, onError = Returns\<rparr>"
  have n: "show_nat 1730000000123 = ''1730000000123''"
    by (simp add: show_nat.simps digit_char_def)
  have h1: "starts_with ''direct_1730000000123'' ''direct_''"
    by (simp add: starts_with_def)
  have h2: "[''direct_1730000000123'' \<mapsto> ?data] ''direct_1730000000123'' = Some ?data"
    by simp
  have h3: "truthy ?data" by simp
  have h4: "well_behaved ?cbs" by (simp add: well_behaved_def)
  have scenario: "getEnhancedJobStatus [''direct_1730000000123'' \<mapsto> ?data]
        (JStr ''direct_1730000000123'') (Inl (new_Error ''Network connection failed''))
      = Inr (direct_completed ?data) \<and>
      submitAndMonitor ?cbs True ?envA (Inl (new_Error ''unused'')) Map.empty
        [Inl (new_Error ''Network connection failed''),
         Inl (new_Error ''Network connection failed'')]
      = (Inr (JStr ''direct_1730000000123''), [''direct_1730000000123'' \<mapsto> ?data],
         [SetTimeout 3000, Call (OnUpdate (direct_completed ?data)),
          Call (OnComplete ?data JNull)]) \<and>
      fst (submitAndMonitor ?cbs False ?envA (Inr ?lr) Map.empty []) = Inr (JStr ''job-7'')"
    using direct_job_completes_on_first_status_query
        [where name = "''direct_1730000000123''"
           and dr = "[''direct_1730000000123'' \<mapsto> ?data]" and r = ?data and cbs = ?cbs
           and settled = "Inl (new_Error ''Network connection failed'')"
           and later = "[Inl (new_Error ''Network connection failed'')]"
           and env = ?envA and ?dr0.0 = Map.empty and a = ?a
           and linkRequest = "Inl (new_Error ''unused'')"
           and lr = ?lr and answer = "JObj [(''job_id'', JStr ''job-7'')]"
           and jid = "JStr ''job-7''" and polls = "[]", OF h1 h2 h3 h4]
    by (simp add: n ok_def invoke_def)
  have upload: "submitEnhancedFileJob ?envU Map.empty
      = (Inr (JObj [(''job_id'', JStr ''task-1'')]), Map.empty)"
    using direct_job_completes_on_first_status_query
        [where name = "''direct_1730000000123''"
           and dr = "[''direct_1730000000123'' \<mapsto> ?data]" and r = ?data and cbs = ?cbs
           and env = ?envU and ?dr0.0 = Map.empty and u = ?u
           and urlData = "JObj [(''signed_url'', JStr ''https://storage.example/upload'')]"
           and signed_url = "JStr ''https://storage.example/upload''"
           and up = ?up and rp = ?rp
           and reportData = "JObj [(''task_id'', JStr ''task-1'')]"
           and task_id = "JStr ''task-1''", OF h1 h2 h3 h4]
    by (simp add: ok_def)
  show ?thesis using scenario upload by simp
qed

section \<open>Properties of credential decoding\<close>

lemma split_on_nonempty: "split_on sep s \<noteq> []"
  by (induction s) (auto split: list.splits)

lemma split_on_no_sep: "sep \<notin> set s \<Longrightarrow> split_on sep s = [s]"
  by (induction s) auto

lemma split_on_append: "split_on sep (a @ sep # b) = split_on sep a @ split_on sep b"
  by (induction a) (auto split: list.splits simp: split_on_nonempty)

lemma join_with_Cons_char: "join_with sep ((c # p) # ps) = c # join_with sep (p # ps)"
  by (cases ps) auto

lemma join_split: "join_with sep (split_on sep s) = s"
proof (induction s)
  case Nil
  then show ?case by simp
next
  case (Cons c s)
  show ?case
  proof (cases "c = sep")
    case True
    obtain p ps where "split_on sep s = p # ps"
      using split_on_nonempty [of sep s] by (cases "split_on sep s") auto
    with Cons True show ?thesis by simp
  next
    case False
    obtain p ps where "split_on sep s = p # ps"
      using split_on_nonempty [of sep s] by (cases "split_on sep s") auto
    with Cons False show ?thesis by (simp add: join_with_Cons_char)
  qed
qed

lemma split_four:
  assumes "sep \<notin> set e" "sep \<notin> set t" "sep \<notin> set s"
  shows "split_on sep (c @ sep # e @ sep # t @ sep # s) = split_on sep c @ [e, t, s]"
  using assms by (simp add: split_on_append split_on_no_sep)

lemma token_fields_colon:
  assumes "CHR ''|'' \<notin> set subject" "CHR ''|'' \<notin> set expiry"
    and "CHR ''|'' \<notin> set timestamp" "CHR ''|'' \<notin> set signature"
    and "CHR '':'' \<notin> set expiry" "CHR '':'' \<notin> set timestamp"
    and "CHR '':'' \<notin> set signature"
  shows "token_fields
           (subject @ CHR '':'' # expiry @ CHR '':'' # timestamp @ CHR '':'' # signature)
         = Some (subject, expiry)"
proof -
  let ?d = "subject @ CHR '':'' # expiry @ CHR '':'' # timestamp @ CHR '':'' # signature"
  let ?n = "length (split_on CHR '':'' subject)"
  have nopipe: "CHR ''|'' \<notin> set ?d" using assms(1-4) by simp
  have parts: "split_on CHR '':'' ?d
               = split_on CHR '':'' subject @ [expiry, timestamp, signature]"
    using assms(5-7) by (rule split_four)
  have pos: "0 < ?n" using split_on_nonempty [of "CHR '':''" subject] by simp
  show ?thesis
    unfolding token_fields_def using nopipe pos
    by (simp add: parts Let_def join_split nth_append)
qed

lemma token_fields_pipe:
  assumes "CHR ''|'' \<notin> set c" "CHR ''|'' \<notin> set e"
    and "CHR ''|'' \<notin> set t" "CHR ''|'' \<notin> set s"
  shows "token_fields (c @ CHR ''|'' # e @ CHR ''|'' # t @ CHR ''|'' # s) = Some (c, e)"
proof -
  let ?d = "c @ CHR ''|'' # e @ CHR ''|'' # t @ CHR ''|'' # s"
  have parts: "split_on CHR ''|'' ?d = [c, e, t, s]"
    using assms by (simp add: split_on_append split_on_no_sep)
  show ?thesis
    unfolding token_fields_def by (simp add: parts Let_def)
qed

lemma parseInt_1900000000: "parseInt ''1900000000'' = Some 1900000000"
  by (simp add: parseInt_def js_whitespace_def starts_with_def is_digit_def digit_value_def
        digits_value_def Let_def)

text \<open>
  C6. Let the token be there and decode to a payload. If the payload has no pipe and is
  a subject followed by three colon-separated fields (expiry, timestamp, signature,
  themselves free of colons), \<^verbatim>\<open>getCurrentUserId\<close> returns the subject whole, colons
  included, unless the expiry has passed, in which case it returns \<^verbatim>\<open>null\<close>. The
  same holds for the four fields of the pipe format. A payload with a pipe and other
  than four pipe-separated parts, or without a pipe and fewer than four
  colon-separated parts, gives \<^verbatim>\<open>null\<close>. So do a missing token, a failure to obtain
  one and a token that is not base64: the function never throws.
\<close>

theorem getCurrentUserId_recovers_subject:
  "(getAuthToken a st = (Inr token, st1) \<and> token \<noteq> [] \<and> base64Decode token = Some decoded \<longrightarrow>
      (CHR ''|'' \<notin> set subject \<union> set expiry \<union> set timestamp \<union> set signature \<and>
       CHR '':'' \<notin> set expiry \<union> set timestamp \<union> set signature \<and>
       decoded = subject @ CHR '':'' # expiry @ CHR '':'' # timestamp @ CHR '':'' # signature \<longrightarrow>
         fst (getCurrentUserId base64Decode nowMs a st)
         = (if expired nowMs expiry then None else Some subject)) \<and>
      (CHR ''|'' \<notin> set subject \<union> set expiry \<union> set timestamp \<union> set signature \<and>
       decoded = subject @ CHR ''|'' # expiry @ CHR ''|'' # timestamp @ CHR ''|'' # signature \<longrightarrow>
         fst (getCurrentUserId base64Decode nowMs a st)
         = (if expired nowMs expiry then None else Some subject)) \<and>
      (CHR ''|'' \<in> set decoded \<and> length (split_on CHR ''|'' decoded) \<noteq> 4 \<longrightarrow>
         fst (getCurrentUserId base64Decode nowMs a st) = None) \<and>
      (CHR ''|'' \<notin> set decoded \<and> length (split_on CHR '':'' decoded) < 4 \<longrightarrow>
         fst (getCurrentUserId base64Decode nowMs a st) = None)) \<and>
   (getAuthToken a st = (Inl e, st1) \<or>
    getAuthToken a st = (Inr [], st1) \<or>
    (getAuthToken a st = (Inr token, st1) \<and> base64Decode token = None) \<longrightarrow>
      fst (getCurrentUserId base64Decode nowMs a st) = None)"
proof -
  have colon: "fst (getCurrentUserId base64Decode nowMs a st)
         = (if expired nowMs expiry then None else Some subject)"
    if "getAuthToken a st = (Inr token, st1)" "token \<noteq> []" "base64Decode token = Some decoded"
       "CHR ''|'' \<notin> set subject \<union> set expiry \<union> set timestamp \<union> set signature"
       "CHR '':'' \<notin> set expiry \<union> set timestamp \<union> set signature"
       "decoded = subject @ CHR '':'' # expiry @ CHR '':'' # timestamp @ CHR '':'' # signature"
  proof -
    have "token_fields decoded = Some (subject, expiry)"
      unfolding that(6) using that(4,5) by (intro token_fields_colon) auto
    then show ?thesis using that(1-3) by (simp add: getCurrentUserId_def)
  qed
  have pipe: "fst (getCurrentUserId base64Decode nowMs a st)
         = (if expired nowMs expiry then None else Some subject)"
    if "getAuthToken a st = (Inr token, st1)" "token \<noteq> []" "base64Decode token = Some decoded"
       "CHR ''|'' \<notin> set subject \<union> set expiry \<union> set timestamp \<union> set signature"
       "decoded = subject @ CHR ''|'' # expiry @ CHR ''|'' # timestamp @ CHR ''|'' # signature"
  proof -
    have "token_fields decoded = Some (subject, expiry)"
      unfolding that(5) using that(4) by (intro token_fields_pipe) auto
    then show ?thesis using that(1-3) by (simp add: getCurrentUserId_def)
  qed
  have malformed: "fst (getCurrentUserId base64Decode nowMs a st) = None"
    if "getAuthToken a st = (Inr token, st1)" "token \<noteq> []" "base64Decode token = Some decoded"
       "(CHR ''|'' \<in> set decoded \<and> length (split_on CHR ''|'' decoded) \<noteq> 4) \<or>
        (CHR ''|'' \<notin> set decoded \<and> length (split_on CHR '':'' decoded) < 4)"
  proof -
    have "token_fields decoded = None"
      using that(4) by (auto simp: token_fields_def Let_def)
    then show ?thesis using that(1-3) by (simp add: getCurrentUserId_def)
  qed
  have absent: "fst (getCurrentUserId base64Decode nowMs a st) = None"
    if "getAuthToken a st = (Inl e, st1) \<or> getAuthToken a st = (Inr [], st1) \<or>
        (getAuthToken a st = (Inr token, st1) \<and> base64Decode token = None)"
    using that by (auto simp: getCurrentUserId_def)
  show ?thesis using colon pipe malformed absent by blast
qed

theorem getCurrentUserId_recovers_subject_witness:
  "fst (getCurrentUserId
     (\<lambda>t. if t = ''dXNlcjp3aXRoOmNvbG9uczoxOTAwMDAwMDAwOjE3MDAwMDAwMDA6YWJjZGVm''
           then Some ''user:with:colons:1900000000:1700000000:abcdef'' else None)
     1800000000000
     \<lparr>probe = Inr \<lparr>status = 200, json_body = None, text_body = ''''\<rparr>,
      issue = Inr ''unused'', issue_again = Inr ''unused'',
      fetched = Inr \<lparr>status = 200, json_body = None, text_body = ''''\<rparr>\<rparr>
     \<lparr>authToken = None,
      stored_authToken = Some ''dXNlcjp3aXRoOmNvbG9uczoxOTAwMDAwMDAwOjE3MDAwMDAwMDA6YWJjZGVm'',
      stored_auth_token = None, net_log = []\<rparr>)
   = Some ''user:with:colons'' \<and>
   fst (getCurrentUserId
     (\<lambda>t. if t = ''dXNlcjp3aXRoOmNvbG9uczoxOTAwMDAwMDAwOjE3MDAwMDAwMDA6YWJjZGVm''
           then Some ''user:with:colons:1900000000:1700000000:abcdef'' else None)
     1950000000000
     \<lparr>probe = Inr \<lparr>status = 200, json_body = None, text_body = ''''\<rparr>,
      issue = Inr ''unused'', issue_again = Inr ''unused'',
      fetched = Inr \<lparr>status = 200, json_body = None, text_body = ''''\<rparr>\<rparr>
     \<lparr>authToken = None,
      stored_authToken = Some ''dXNlcjp3aXRoOmNvbG9uczoxOTAwMDAwMDAwOjE3MDAwMDAwMDA6YWJjZGVm'',
      stored_auth_token = None, net_log = []\<rparr>)
   = None"
proof -
  let ?tok = "''dXNlcjp3aXRoOmNvbG9uczoxOTAwMDAwMDAwOjE3MDAwMDAwMDA6YWJjZGVm''"
  let ?b64 = "\<lambda>t. if t = ?tok
           then Some ''user:with:colons:1900000000:1700000000:abcdef'' else None"
  let ?a = "\<lparr>probe = Inr \<lparr>status = 200, json_body = None, text_body = ''''\<rparr>,
      issue = Inr ''unused'', issue_again = Inr ''unused'',
      fetched = Inr \<lparr>status = 200, json_body = None, text_body = ''''\<rparr>\<rparr>"
  let ?st = "\<lparr>authToken = None, stored_authToken = Some ?tok,
      stored_auth_token = None, net_log = []\<rparr>"
  have h: "getAuthToken ?a ?st = (Inr ?tok, ?st) \<and> ?tok \<noteq> [] \<and>
           ?b64 ?tok = Some ''user:with:colons:1900000000:1700000000:abcdef''"
    by (simp add: getAuthToken_def probe_token_def ok_def)
  have f: "CHR ''|'' \<notin> set ''user:with:colons'' \<union> set ''1900000000'' \<union>
                       set ''1700000000'' \<union> set ''abcdef'' \<and>
       CHR '':'' \<notin> set ''1900000000'' \<union> set ''1700000000'' \<union> set ''abcdef'' \<and>
       ''user:with:colons:1900000000:1700000000:abcdef''
       = ''user:with:colons'' @ CHR '':'' # ''1900000000'' @ CHR '':'' # ''1700000000'' @
         CHR '':'' # ''abcdef''"
    by simp
  have e1: "\<not> expired 1800000000000 ''1900000000''"
    by (simp add: expired_def parseInt_1900000000)
  have e2: "expired 1950000000000 ''1900000000''"
    by (simp add: expired_def parseInt_1900000000)
  have "fst (getCurrentUserId ?b64 nowMs ?a ?st)
        = (if expired nowMs ''1900000000'' then None else Some ''user:with:colons'')" for nowMs
    using getCurrentUserId_recovers_subject
        [where a = ?a and st = ?st and token = ?tok and ?st1.0 = ?st and base64Decode = ?b64
           and decoded = "''user:with:colons:1900000000:1700000000:abcdef''"
           and subject = "''user:with:colons''" and expiry = "''1900000000''"
           and timestamp = "''1700000000''" and signature = "''abcdef''" and nowMs = nowMs]
          h f
    by blast
  from this [of 1800000000000] this [of 1950000000000] e1 e2 show ?thesis by simp
qed

section \<open>Properties of the tier rules\<close>

text \<open>
  On the results screen a user without a subscription gets the placeholder in the
  transcription slot, whatever transcription data the result carries.
\<close>

lemma renderTranscription_free:
  "renderTranscription False False combinedTranscriptionData aiDetectionTimeline chartData
   = ProPlaceholder"
  by (simp add: renderTranscription_def)

text \<open>
  C7. For tier FREE the shaped result keeps the whole chunk timeline and the overall
  label and confidence, its transcript is null and \<open>isLimited\<close> is true, whether or
  not the input carries a transcript; for tier PRO the result passes unchanged and
  \<open>isLimited\<close> is false.
\<close>

theorem shape_free_drops_transcript:
  "chunks (shape r FREE) = chunks r \<and>
   overallLabel (shape r FREE) = overallLabel r \<and>
   aggregateConfidence (shape r FREE) = aggregateConfidence r \<and>
   transcript (shape r FREE) = None \<and>
   isLimited (shape r FREE) = True \<and>
   transcript (shape (r\<lparr>transcript := Some t\<rparr>) FREE) = None \<and>
   analysis_result.truncate (shape r PRO) = r \<and>
   isLimited (shape r PRO) = False"
  by (simp add: shape_def analysis_result.truncate_def)

end
